theory Spec2Isabelle
  imports Main
begin

section \<open>Data model of \<^verbatim>\<open>src/index.ts\<close>\<close>

text \<open>
  A JavaScript string is modelled as a \<^typ>\<open>string\<close> (a list of characters). The code
  inspects characters only through the classes \<^verbatim>\<open>[A-Z]\<close>, \<^verbatim>\<open>[^a-zA-Z0-9-]\<close> and
  \<^verbatim>\<open>;|,\<close>, all of them ASCII; a character outside ASCII is to it a character that is no
  letter, digit, hyphen or separator, whatever its code.

  A directive value element is a string or a function of the request and the response
  (\<^verbatim>\<open>ContentSecurityPolicyDirectiveValue\<close>). The types \<open>'q\<close> and \<open>'s\<close> stand for
  \<^verbatim>\<open>IncomingMessage\<close> and \<^verbatim>\<open>ServerResponse\<close>; a value function reads them and returns a
  string, as its interface declares. The middleware takes \<open>'s\<close> as the record of the
  response that is defined with it.
\<close>

datatype ('q, 's) directive_value =
    StringValue string
  | FunctionValue "'q \<Rightarrow> 's \<Rightarrow> string"

text \<open>
  What a property of \<^verbatim>\<open>options.directives\<close> may hold, by the cases that
  \<^verbatim>\<open>normalizeDirectives\<close> tells apart, in the order it tests them: a string
  (\<^verbatim>\<open>typeof rawDirectiveValue === "string"\<close>, the empty string included), another falsy value
  (\<^verbatim>\<open>undefined\<close>, \<^verbatim>\<open>null\<close>, \<^verbatim>\<open>false\<close>, \<^verbatim>\<open>0\<close>, \<^verbatim>\<open>NaN\<close>), the symbol
  \<^verbatim>\<open>dangerouslyDisableDefaultSrc\<close>, or an iterable of elements: an array, which every
  iteration reads from its first element. Values of other kinds are outside the declared
  type of \<^verbatim>\<open>directives\<close> and are not modelled.
\<close>

datatype ('q, 's) raw_directive_value =
    RawString string
  | Falsy
  | dangerouslyDisableDefaultSrc
  | Iterable "('q, 's) directive_value list"

text \<open>
  An object is the list of its own enumerable properties in the order of their creation;
  its keys are pairwise distinct.
\<close>

type_synonym ('q, 's) raw_directives = "(string \<times> ('q, 's) raw_directive_value) list"

record ('q, 's) ContentSecurityPolicyOptions =
  directives :: "('q, 's) raw_directives option"
  reportOnly :: bool

record ('q, 's) normalized_directive =
  directiveName :: string
  directiveValue :: "('q, 's) directive_value list"

type_synonym ('q, 's) NormalizedDirectives = "('q, 's) normalized_directive list"

text \<open>One constructor for each \<^verbatim>\<open>Error\<close> the code creates, with the name it quotes.\<close>

datatype error =
    InvalidDirectiveName string
  | DuplicateDirective string
  | InvalidDirectiveValue string
  | TriedToDisable string
  | NoDirectives
  | NeedsDefaultSrc

section \<open>Small utilities\<close>

text \<open>
  A keyword in single quotes, as in the source text \<^verbatim>\<open>"'self'"\<close>: \<open>quoted ''self''\<close> is the
  string of the six characters \<^verbatim>\<open>'self'\<close> (\<open>CHR 0x27\<close> is the single quote).
\<close>

abbreviation quoted :: "string \<Rightarrow> string" where
  "quoted s \<equiv> CHR 0x27 # s @ [CHR 0x27]"

text \<open>The character classes \<^verbatim>\<open>[A-Z]\<close>, \<^verbatim>\<open>[a-z]\<close> and \<^verbatim>\<open>[0-9]\<close>, letter by letter.\<close>

definition isUpper :: "char \<Rightarrow> bool" where
  "isUpper c \<longleftrightarrow> c \<in> set ''ABCDEFGHIJKLMNOPQRSTUVWXYZ''"

definition isLower :: "char \<Rightarrow> bool" where
  "isLower c \<longleftrightarrow> c \<in> set ''abcdefghijklmnopqrstuvwxyz''"

definition isDigit :: "char \<Rightarrow> bool" where
  "isDigit c \<longleftrightarrow> c \<in> set ''0123456789''"

text \<open>\<^verbatim>\<open>toLowerCase\<close>, on the capital letters of \<^verbatim>\<open>[A-Z]\<close> (the only ones it is applied to).\<close>

definition toLowerCase :: "char \<Rightarrow> char" where
  "toLowerCase c =
     (case map_of (zip ''ABCDEFGHIJKLMNOPQRSTUVWXYZ'' ''abcdefghijklmnopqrstuvwxyz'') c of
        Some l \<Rightarrow> l
      | None \<Rightarrow> c)"

text \<open>\<^verbatim>\<open>str.replace(/[A-Z]/g, (capitalLetter) => "-" + capitalLetter.toLowerCase())\<close>\<close>

definition dashify :: "string \<Rightarrow> string" where
  "dashify str = concat (map (\<lambda>c. if isUpper c then [CHR ''-'', toLowerCase c] else [c]) str)"

text \<open>\<^verbatim>\<open>/;|,/.test(directiveValue)\<close>\<close>

definition isDirectiveValueInvalid :: "string \<Rightarrow> bool" where
  "isDirectiveValueInvalid v = list_ex (\<lambda>c. c = CHR '';'' \<or> c = CHR '','') v"

text \<open>\<^verbatim>\<open>rawDirectiveName.length === 0 || /[^a-zA-Z0-9-]/.test(rawDirectiveName)\<close>\<close>

definition isNameChar :: "char \<Rightarrow> bool" where
  "isNameChar c \<longleftrightarrow> isLower c \<or> isUpper c \<or> isDigit c \<or> c = CHR ''-''"

definition isDirectiveNameInvalid :: "string \<Rightarrow> bool" where
  "isDirectiveNameInvalid rawDirectiveName \<longleftrightarrow>
     rawDirectiveName = [] \<or> list_ex (\<lambda>c. \<not> isNameChar c) rawDirectiveName"

text \<open>\<^verbatim>\<open>Array.prototype.join\<close>\<close>

fun join :: "string \<Rightarrow> string list \<Rightarrow> string" where
  "join sep [] = []"
| "join sep [x] = x"
| "join sep (x # y # ys) = x @ sep @ join sep (y # ys)"

section \<open>Enumeration order of \<^verbatim>\<open>for ... in\<close>\<close>

text \<open>
  \<^verbatim>\<open>for (const rawDirectiveName in rawDirectives)\<close> visits the keys of an ordinary object in
  the order of its own property keys: first the keys that are array indices (the canonical
  decimal numerals of the integers from 0 to 2^32 - 2), in ascending numeric order, then
  the other string keys in the order of their creation. Inherited properties are skipped
  by the \<^verbatim>\<open>has\<close> test, so only own properties are listed.
\<close>

definition decimal :: "string \<Rightarrow> nat" where
  "decimal k = foldl (\<lambda>n c. 10 * n + (of_char c - 48)) 0 k"

definition isArrayIndex :: "string \<Rightarrow> bool" where
  "isArrayIndex k \<longleftrightarrow>
     (case k of
        [] \<Rightarrow> False
      | c # cs \<Rightarrow> list_all isDigit k \<and> (if c = CHR ''0'' then cs = [] else True)
                 \<and> decimal k \<le> 4294967294)"

definition forIn :: "(string \<times> 'v) list \<Rightarrow> (string \<times> 'v) list" where
  "forIn obj =
     sort_key (\<lambda>p. decimal (fst p)) (filter (\<lambda>p. isArrayIndex (fst p)) obj)
     @ filter (\<lambda>p. \<not> isArrayIndex (fst p)) obj"

section \<open>The table of defaults and \<^verbatim>\<open>getDefaultDirectives\<close>\<close>

text \<open>
  \<^verbatim>\<open>DEFAULT_DIRECTIVES\<close> is one object of the module, and each of its properties holds a
  reference to an array. The store keeps the arrays by address, the property table of
  \<^verbatim>\<open>DEFAULT_DIRECTIVES\<close> (property name and address of the array it refers to), and the
  objects that \<^verbatim>\<open>getDefaultDirectives\<close> has created so far, each again a property table.
\<close>

type_synonym addr = nat

record ('q, 's) store =
  arrays :: "addr \<Rightarrow> ('q, 's) directive_value list"
  DEFAULT_DIRECTIVES :: "(string \<times> addr) list"
  copies :: "(string \<times> addr) list list"

text \<open>The store after the module is loaded (lines 37 to 52).\<close>

definition module_store :: "('q, 's) store" where
  "module_store =
     \<lparr> arrays = (\<lambda>a. [])
         (0 := [StringValue (quoted ''self'')],
          1 := [StringValue (quoted ''self'')],
          2 := [],
          3 := [StringValue (quoted ''self''), StringValue ''https:'', StringValue ''data:''],
          4 := [StringValue (quoted ''self'')],
          5 := [StringValue (quoted ''self''), StringValue ''data:''],
          6 := [StringValue (quoted ''none'')],
          7 := [StringValue (quoted ''self'')],
          8 := [StringValue (quoted ''none'')],
          9 := [StringValue (quoted ''self''), StringValue ''https:'', StringValue (quoted ''unsafe-inline'')],
          10 := []),
       DEFAULT_DIRECTIVES =
         [(''default-src'', 0),
          (''base-uri'', 1),
          (''block-all-mixed-content'', 2),
          (''font-src'', 3),
          (''frame-ancestors'', 4),
          (''img-src'', 5),
          (''object-src'', 6),
          (''script-src'', 7),
          (''script-src-attr'', 8),
          (''style-src'', 9),
          (''upgrade-insecure-requests'', 10)],
       copies = [] \<rparr>"

text \<open>
  \<^verbatim>\<open>() => ({ ...DEFAULT_DIRECTIVES })\<close>: a new object that receives the own properties of
  \<^verbatim>\<open>DEFAULT_DIRECTIVES\<close>, in the order of its keys, each with the value the property holds,
  which is the reference to the array. The result is the new object (its index among the
  copies) and the store that holds it.
\<close>

definition getDefaultDirectives :: "('q, 's) store \<Rightarrow> nat \<times> ('q, 's) store" where
  "getDefaultDirectives st =
     (length (copies st), st\<lparr> copies := copies st @ [forIn (DEFAULT_DIRECTIVES st)] \<rparr>)"

text \<open>
  What a caller can do with a copy it holds: read a property, assign one, and push an
  element onto an array it has read.
\<close>

definition getProperty :: "('q, 's) store \<Rightarrow> nat \<Rightarrow> string \<Rightarrow> addr option" where
  "getProperty st obj k = (if obj < length (copies st) then map_of (copies st ! obj) k else None)"

definition setProperty :: "nat \<Rightarrow> string \<Rightarrow> addr \<Rightarrow> ('q, 's) store \<Rightarrow> ('q, 's) store" where
  "setProperty obj k a st =
     (if obj < length (copies st)
      then st\<lparr> copies := (copies st)[obj :=
             (if k \<in> set (map fst (copies st ! obj))
              then map (\<lambda>p. if fst p = k then (k, a) else p) (copies st ! obj)
              else copies st ! obj @ [(k, a)])] \<rparr>
      else st)"

definition arrayPush :: "addr \<Rightarrow> ('q, 's) directive_value \<Rightarrow> ('q, 's) store \<Rightarrow> ('q, 's) store" where
  "arrayPush a v st = st\<lparr> arrays := (arrays st)(a := arrays st a @ [v]) \<rparr>"

text \<open>The value of an object whose properties refer to arrays: each array read from the store.\<close>

definition contents :: "('q, 's) store \<Rightarrow> (string \<times> addr) list \<Rightarrow> ('q, 's) raw_directives" where
  "contents st props = map (\<lambda>p. (fst p, Iterable (arrays st (snd p)))) props"

section \<open>\<^verbatim>\<open>normalizeDirectives\<close>\<close>

text \<open>
  The loop over the elements (lines 123 to 131): it throws when an element is a string
  with a separator in it; an element that is a function is not looked at.
\<close>

definition hasInvalidString :: "('q, 's) directive_value list \<Rightarrow> bool" where
  "hasInvalidString elements =
     list_ex (\<lambda>element. case element of
                StringValue s \<Rightarrow> isDirectiveValueInvalid s
              | FunctionValue f \<Rightarrow> False) elements"

text \<open>
  The loop over the raw directives, with the two variables it updates, \<^verbatim>\<open>result\<close> and
  \<^verbatim>\<open>directiveNamesSeen\<close>. A \<^verbatim>\<open>throw\<close> ends the loop with \<open>Inl\<close>. The name is added to
  \<^verbatim>\<open>directiveNamesSeen\<close> (line 98) before the value is looked at.
\<close>

fun normalizeLoop ::
  "('q, 's) raw_directives \<Rightarrow> ('q, 's) NormalizedDirectives \<Rightarrow> string set
     \<Rightarrow> error + (('q, 's) NormalizedDirectives \<times> string set)" where
  "normalizeLoop [] result directiveNamesSeen = Inr (result, directiveNamesSeen)"
| "normalizeLoop ((rawDirectiveName, rawDirectiveValue) # rest) result directiveNamesSeen =
     (if isDirectiveNameInvalid rawDirectiveName then Inl (InvalidDirectiveName rawDirectiveName)
      else if dashify rawDirectiveName \<in> directiveNamesSeen
        then Inl (DuplicateDirective (dashify rawDirectiveName))
      else
        (case rawDirectiveValue of
           RawString s \<Rightarrow>
             (if hasInvalidString [StringValue s :: ('q, 's) directive_value]
              then Inl (InvalidDirectiveValue (dashify rawDirectiveName))
              else normalizeLoop rest
                     (result @ [\<lparr> directiveName = dashify rawDirectiveName,
                                  directiveValue = [StringValue s] \<rparr>])
                     (insert (dashify rawDirectiveName) directiveNamesSeen))
         | Falsy \<Rightarrow> Inl (InvalidDirectiveValue (dashify rawDirectiveName))
         | dangerouslyDisableDefaultSrc \<Rightarrow>
             (if dashify rawDirectiveName = ''default-src''
              then normalizeLoop rest result (insert (dashify rawDirectiveName) directiveNamesSeen)
              else Inl (TriedToDisable (dashify rawDirectiveName)))
         | Iterable elements \<Rightarrow>
             (if hasInvalidString elements
              then Inl (InvalidDirectiveValue (dashify rawDirectiveName))
              else normalizeLoop rest
                     (result @ [\<lparr> directiveName = dashify rawDirectiveName,
                                  directiveValue = elements \<rparr>])
                     (insert (dashify rawDirectiveName) directiveNamesSeen))))"

text \<open>
  The raw directives are those of the options or, when the options have none, the
  contents of a new copy of the defaults (line 68).
\<close>

definition rawDirectivesOf ::
  "('q, 's) store \<Rightarrow> ('q, 's) ContentSecurityPolicyOptions \<Rightarrow> ('q, 's) raw_directives" where
  "rawDirectivesOf st options =
     (case directives options of
        Some d \<Rightarrow> d
      | None \<Rightarrow> (case getDefaultDirectives st of (obj, st') \<Rightarrow> contents st' (copies st' ! obj)))"

text \<open>The function: the loop, then the two checks after it (lines 136 to 145).\<close>

definition normalizeDirectives ::
  "('q, 's) store \<Rightarrow> ('q, 's) ContentSecurityPolicyOptions
     \<Rightarrow> error + ('q, 's) NormalizedDirectives" where
  "normalizeDirectives st options =
     (case normalizeLoop (forIn (rawDirectivesOf st options)) [] {} of
        Inl e \<Rightarrow> Inl e
      | Inr (result, directiveNamesSeen) \<Rightarrow>
          if result = [] then Inl NoDirectives
          else if ''default-src'' \<notin> directiveNamesSeen then Inl NeedsDefaultSrc
          else Inr result)"

section \<open>\<^verbatim>\<open>getHeaderValue\<close>\<close>

text \<open>\<^verbatim>\<open>element instanceof Function ? element(req, res) : element\<close>\<close>

definition resolve :: "'q \<Rightarrow> 's \<Rightarrow> ('q, 's) directive_value \<Rightarrow> string" where
  "resolve req res element =
     (case element of FunctionValue f \<Rightarrow> f req res | StringValue s \<Rightarrow> s)"

text \<open>
  The inner loop (lines 161 to 165): \<^verbatim>\<open>directiveValue\<close> starts empty and receives, for each
  element, a space and the resolved element.
\<close>

definition accumulate :: "'q \<Rightarrow> 's \<Rightarrow> ('q, 's) directive_value list \<Rightarrow> string" where
  "accumulate req res rawDirectiveValue =
     foldl (\<lambda>directiveValue element. directiveValue @ '' '' @ resolve req res element)
       [] rawDirectiveValue"

text \<open>The outer loop, with the array \<^verbatim>\<open>result\<close>; the \<^verbatim>\<open>return new Error\<close> ends it.\<close>

fun getHeaderValueLoop ::
  "'q \<Rightarrow> 's \<Rightarrow> ('q, 's) NormalizedDirectives \<Rightarrow> string list \<Rightarrow> error + string list" where
  "getHeaderValueLoop req res [] result = Inr result"
| "getHeaderValueLoop req res (d # rest) result =
     (if accumulate req res (directiveValue d) = []
      then getHeaderValueLoop req res rest (result @ [directiveName d])
      else if isDirectiveValueInvalid (accumulate req res (directiveValue d))
        then Inl (InvalidDirectiveValue (directiveName d))
      else getHeaderValueLoop req res rest
             (result @ [directiveName d @ accumulate req res (directiveValue d)]))"

definition getHeaderValue ::
  "'q \<Rightarrow> 's \<Rightarrow> ('q, 's) NormalizedDirectives \<Rightarrow> error + string" where
  "getHeaderValue req res normalizedDirectives =
     (case getHeaderValueLoop req res normalizedDirectives [] of
        Inl e \<Rightarrow> Inl e
      | Inr result \<Rightarrow> Inr (join '';'' result))"

section \<open>\<^verbatim>\<open>contentSecurityPolicy\<close> and its middleware\<close>











section \<open>Properties of the loops\<close>

text \<open>What one raw directive adds to \<^verbatim>\<open>result\<close> when the loop passes it (line 133).\<close>

definition pushed :: "string \<times> ('q, 's) raw_directive_value \<Rightarrow> ('q, 's) NormalizedDirectives" where
  "pushed p =
     (case snd p of
        RawString t \<Rightarrow> [\<lparr>directiveName = dashify (fst p), directiveValue = [StringValue t]\<rparr>]
      | Iterable es \<Rightarrow> [\<lparr>directiveName = dashify (fst p), directiveValue = es\<rparr>]
      | Falsy \<Rightarrow> []
      | dangerouslyDisableDefaultSrc \<Rightarrow> [])"

subsection \<open>Characters and names\<close>

lemma toLowerCase_isLower: "isUpper c \<Longrightarrow> isLower (toLowerCase c)"
  unfolding isUpper_def by (simp, elim disjE; simp add: toLowerCase_def isLower_def)

lemma isLower_not_separator: "isLower c \<Longrightarrow> c \<noteq> CHR '';'' \<and> c \<noteq> CHR '',''"
  unfolding isLower_def by (simp, elim disjE; simp)

lemma isUpper_not_separator: "isUpper c \<Longrightarrow> c \<noteq> CHR '';'' \<and> c \<noteq> CHR '',''"
  unfolding isUpper_def by (simp, elim disjE; simp)

lemma isDigit_not_separator: "isDigit c \<Longrightarrow> c \<noteq> CHR '';'' \<and> c \<noteq> CHR '',''"
  unfolding isDigit_def by (simp, elim disjE; simp)

lemma isNameChar_not_separator: "isNameChar c \<Longrightarrow> c \<noteq> CHR '';'' \<and> c \<noteq> CHR '',''"
  unfolding isNameChar_def
  using isLower_not_separator isUpper_not_separator isDigit_not_separator by blast

lemma dashify_Nil [simp]: "dashify [] = []"
  by (simp add: dashify_def)

lemma dashify_Cons:
  "dashify (c # cs) = (if isUpper c then CHR ''-'' # toLowerCase c # dashify cs else c # dashify cs)"
  by (simp add: dashify_def)

lemma dashify_chars:
  "list_all isNameChar k \<Longrightarrow> list_all (\<lambda>c. c \<noteq> CHR '';'' \<and> c \<noteq> CHR '','') (dashify k)"
proof (induction k)
  case Nil
  then show ?case by simp
next
  case (Cons c cs)
  then have c: "isNameChar c" and cs: "list_all (\<lambda>c. c \<noteq> CHR '';'' \<and> c \<noteq> CHR '','') (dashify cs)"
    by simp_all
  show ?case
  proof (cases "isUpper c")
    case True
    from isLower_not_separator[OF toLowerCase_isLower[OF True]] cs True
    show ?thesis by (simp add: dashify_Cons)
  next
    case False
    with isNameChar_not_separator[OF c] cs show ?thesis by (simp add: dashify_Cons)
  qed
qed

lemma dashify_valid:
  assumes "\<not> isDirectiveNameInvalid k"
  shows "\<not> isDirectiveValueInvalid (dashify k)"
proof -
  from assms have "list_all isNameChar k"
    by (simp add: isDirectiveNameInvalid_def list_ex_iff list_all_iff)
  from dashify_chars[OF this] show ?thesis
    by (simp add: isDirectiveValueInvalid_def list_ex_iff list_all_iff)
qed

subsection \<open>The loop of \<^verbatim>\<open>normalizeDirectives\<close>\<close>

lemma normalizeLoop_step:
  assumes "normalizeLoop (p # xs) result seen = Inr (r, s)"
  shows "normalizeLoop xs (result @ pushed p) (insert (dashify (fst p)) seen) = Inr (r, s)"
    and "\<not> isDirectiveNameInvalid (fst p)"
    and "dashify (fst p) \<notin> seen"
    and "snd p \<noteq> Falsy"
    and "snd p = dangerouslyDisableDefaultSrc \<Longrightarrow> dashify (fst p) = ''default-src''"
    and "list_all (\<lambda>d. \<not> hasInvalidString (directiveValue d)) (pushed p)"
  using assms
  by (cases p; cases "snd p"; simp add: pushed_def hasInvalidString_def split: if_splits)+

lemma normalizeLoop_seen:
  "normalizeLoop xs result seen = Inr (r, s) \<Longrightarrow> s = seen \<union> (\<lambda>p. dashify (fst p)) ` set xs"
proof (induction xs arbitrary: result seen)
  case Nil
  then show ?case by simp
next
  case (Cons p xs)
  from Cons.IH[OF normalizeLoop_step(1)[OF Cons.prems]] show ?case by auto
qed

lemma normalizeLoop_result:
  "normalizeLoop xs result seen = Inr (r, s) \<Longrightarrow> r = result @ concat (map pushed xs)"
proof (induction xs arbitrary: result seen)
  case Nil
  then show ?case by simp
next
  case (Cons p xs)
  from Cons.IH[OF normalizeLoop_step(1)[OF Cons.prems]] show ?case by simp
qed

lemma normalizeLoop_fresh:
  "normalizeLoop xs result seen = Inr (r, s) \<Longrightarrow>
   list_all (\<lambda>p. \<not> isDirectiveNameInvalid (fst p) \<and> dashify (fst p) \<notin> seen \<and> snd p \<noteq> Falsy
               \<and> (if snd p = dangerouslyDisableDefaultSrc then dashify (fst p) = ''default-src'' else True)
               \<and> list_all (\<lambda>d. \<not> hasInvalidString (directiveValue d)) (pushed p)) xs"
proof (induction xs arbitrary: result seen)
  case Nil
  then show ?case by simp
next
  case (Cons p xs)
  note step = normalizeLoop_step[OF Cons.prems]
  from Cons.IH[OF step(1)] have "list_all (\<lambda>p. \<not> isDirectiveNameInvalid (fst p) \<and> dashify (fst p) \<notin> seen \<and> snd p \<noteq> Falsy
               \<and> (if snd p = dangerouslyDisableDefaultSrc then dashify (fst p) = ''default-src'' else True)
               \<and> list_all (\<lambda>d. \<not> hasInvalidString (directiveValue d)) (pushed p)) xs"
    by (simp add: list_all_iff)
  with step(2-6) show ?case by simp
qed

lemma normalizeLoop_distinct:
  "normalizeLoop xs result seen = Inr (r, s) \<Longrightarrow> distinct (map (\<lambda>p. dashify (fst p)) xs)"
proof (induction xs arbitrary: result seen)
  case Nil
  then show ?case by simp
next
  case (Cons p xs)
  note step = normalizeLoop_step[OF Cons.prems]
  from normalizeLoop_fresh[OF step(1)] have "dashify (fst p) \<notin> (\<lambda>p. dashify (fst p)) ` set xs"
    by (auto simp: list_all_iff)
  with Cons.IH[OF step(1)] show ?case by simp
qed

subsection \<open>The loops of \<^verbatim>\<open>getHeaderValue\<close>\<close>

lemma foldl_accumulate:
  "foldl (\<lambda>directiveValue element. directiveValue @ '' '' @ resolve req res element) acc vs
     = acc @ concat (map (\<lambda>e. CHR '' '' # resolve req res e) vs)"
  by (induction vs arbitrary: acc) simp_all

lemma accumulate_concat:
  "accumulate req res vs = concat (map (\<lambda>e. CHR '' '' # resolve req res e) vs)"
  unfolding accumulate_def foldl_accumulate by simp

lemma accumulate_Nil_iff: "accumulate req res vs = [] \<longleftrightarrow> vs = []"
  by (cases vs) (simp_all add: accumulate_concat)

lemma getHeaderValueLoop_valid:
  "list_all (\<lambda>d. \<not> isDirectiveValueInvalid (accumulate req res (directiveValue d))) nds \<Longrightarrow>
   getHeaderValueLoop req res nds result =
     Inr (result @ map (\<lambda>d. directiveName d @ accumulate req res (directiveValue d)) nds)"
  by (induction nds arbitrary: result) simp_all


lemma count_join:
  "list_all (\<lambda>x. c \<notin> set x) xs \<Longrightarrow> xs \<noteq> [] \<Longrightarrow>
   Suc (count_list (join [c] xs) c) = length xs"
  by (induction "[c]" xs rule: join.induct) (simp_all add: count_list_0_iff)

lemma forIn_set: "set (forIn obj) = set obj"
  by (auto simp: forIn_def)

subsection \<open>The checks after the loop\<close>

lemma normalizeDirectives_Inr:
  assumes "normalizeDirectives st options = Inr nds"
  shows "\<exists>seen. normalizeLoop (forIn (rawDirectivesOf st options)) [] {} = Inr (nds, seen)
           \<and> nds \<noteq> [] \<and> ''default-src'' \<in> seen"
  using assms unfolding normalizeDirectives_def
  by (auto split: sum.splits if_splits)

lemma normalizeLoop_not_NeedsDefaultSrc:
  "normalizeLoop xs result seen \<noteq> Inl NeedsDefaultSrc"
  by (induction xs result seen rule: normalizeLoop.induct)
     (auto split: raw_directive_value.splits)

lemma normalizeDirectives_NeedsDefaultSrc:
  assumes "normalizeDirectives st options = Inl NeedsDefaultSrc"
  shows "\<exists>result seen. normalizeLoop (forIn (rawDirectivesOf st options)) [] {} = Inr (result, seen)
           \<and> ''default-src'' \<notin> seen"
proof (cases "normalizeLoop (forIn (rawDirectivesOf st options)) [] {}")
  case (Inl e)
  with assms normalizeLoop_not_NeedsDefaultSrc[of "forIn (rawDirectivesOf st options)" "[]" "{}"]
  show ?thesis by (simp add: normalizeDirectives_def)
next
  case (Inr p)
  with assms show ?thesis
    by (cases p) (auto simp: normalizeDirectives_def split: if_splits)
qed

section \<open>Evaluation of concrete configurations\<close>

lemmas name_eval = dashify_def isUpper_def toLowerCase_def isDirectiveNameInvalid_def
  isNameChar_def isLower_def isDigit_def isDirectiveValueInvalid_def hasInvalidString_def

lemmas order_eval = forIn_def isArrayIndex_def decimal_def isDigit_def

section \<open>The disable sentinel\<close>

text \<open>
  C1. A configuration that gives the sentinel \<^verbatim>\<open>dangerouslyDisableDefaultSrc\<close> to a key whose
  canonical name is \<^verbatim>\<open>default-src\<close> never fails with the error "needs a default-src": the
  name is recorded as seen before the entry is skipped. The directives
  \<^verbatim>\<open>{ defaultSrc: dangerouslyDisableDefaultSrc, objectSrc: ["'none'"] }\<close> normalize to the single
  entry \<^verbatim>\<open>object-src 'none'\<close>, with no entry named \<^verbatim>\<open>default-src\<close>, and
  \<^verbatim>\<open>{ defaultSrc: dangerouslyDisableDefaultSrc }\<close> alone fails with the error "no directives".
\<close>

theorem disable_default_src:
  fixes st :: "('q, 's) store"
  shows
  "(\<forall>d k. (k, dangerouslyDisableDefaultSrc) \<in> set d \<and> dashify k = ''default-src'' \<longrightarrow>
      normalizeDirectives st \<lparr>directives = Some d, reportOnly = ro\<rparr> \<noteq> Inl NeedsDefaultSrc)
   \<and> normalizeDirectives st
       \<lparr>directives = Some [(''defaultSrc'', dangerouslyDisableDefaultSrc),
                           (''objectSrc'', Iterable [StringValue (quoted ''none'')])],
        reportOnly = ro\<rparr>
     = Inr [\<lparr>directiveName = ''object-src'', directiveValue = [StringValue (quoted ''none'')]\<rparr>]
   \<and> ''default-src'' \<notin> set (map directiveName
         [\<lparr>directiveName = ''object-src'', directiveValue = [StringValue (quoted ''none'') :: ('q, 's) directive_value]\<rparr>])
   \<and> normalizeDirectives st
       \<lparr>directives = Some [(''defaultSrc'', dangerouslyDisableDefaultSrc)], reportOnly = ro\<rparr>
     = Inl NoDirectives"
proof (intro conjI allI impI)
  fix d :: "('q, 's) raw_directives" and k
  assume k: "(k, dangerouslyDisableDefaultSrc) \<in> set d \<and> dashify k = ''default-src''"
  show "normalizeDirectives st \<lparr>directives = Some d, reportOnly = ro\<rparr> \<noteq> Inl NeedsDefaultSrc"
  proof
    assume "normalizeDirectives st \<lparr>directives = Some d, reportOnly = ro\<rparr> = Inl NeedsDefaultSrc"
    from normalizeDirectives_NeedsDefaultSrc[OF this]
    obtain result seen where
      loop: "normalizeLoop (forIn d) [] {} = Inr (result, seen)" and no: "''default-src'' \<notin> seen"
      by (auto simp: rawDirectivesOf_def)
    from normalizeLoop_seen[OF loop] have "seen = (\<lambda>p. dashify (fst p)) ` set d"
      by (simp add: forIn_set)
    with k no show False by force
  qed
qed (simp_all add: normalizeDirectives_def rawDirectivesOf_def order_eval name_eval)

theorem disable_default_src_witness:
  "(''defaultSrc'', dangerouslyDisableDefaultSrc) \<in>
      set [(''defaultSrc'', dangerouslyDisableDefaultSrc),
           (''scriptSrc'', Iterable [StringValue (quoted ''self'') :: (unit, unit) directive_value]),
           (''imgSrc'', RawString ''data:'')]
   \<and> dashify ''defaultSrc'' = ''default-src''
   \<and> normalizeDirectives (module_store :: (unit, unit) store)
       \<lparr>directives = Some [(''defaultSrc'', dangerouslyDisableDefaultSrc),
                           (''scriptSrc'', Iterable [StringValue (quoted ''self'')]),
                           (''imgSrc'', RawString ''data:'')],
        reportOnly = False\<rparr> \<noteq> Inl NeedsDefaultSrc"
proof -
  have h: "(''defaultSrc'', dangerouslyDisableDefaultSrc) \<in>
      set [(''defaultSrc'', dangerouslyDisableDefaultSrc),
           (''scriptSrc'', Iterable [StringValue (quoted ''self'') :: (unit, unit) directive_value]),
           (''imgSrc'', RawString ''data:'')]
   \<and> dashify ''defaultSrc'' = ''default-src''"
    by (simp add: name_eval)
  from disable_default_src[where st = "module_store :: (unit, unit) store" and ro = False, THEN conjunct1, rule_format, OF h] h
  show ?thesis by blast
qed

text \<open>
  C8. The sentinel on a key whose canonical name is not \<^verbatim>\<open>default-src\<close> is an error of the
  normalization, whatever else the configuration holds; \<^verbatim>\<open>{ scriptSrc: dangerouslyDisableDefaultSrc }\<close>
  fails with the error "tried to disable script-src as if it were default-src".
\<close>

theorem sentinel_only_for_default_src:
  fixes st :: "('q, 's) store"
  shows
  "(\<forall>d k. (k, dangerouslyDisableDefaultSrc) \<in> set d \<and> dashify k \<noteq> ''default-src'' \<longrightarrow>
      (\<exists>e. normalizeDirectives st \<lparr>directives = Some d, reportOnly = ro\<rparr> = Inl e))
   \<and> normalizeDirectives st
       \<lparr>directives = Some [(''scriptSrc'', dangerouslyDisableDefaultSrc)], reportOnly = ro\<rparr>
     = Inl (TriedToDisable ''script-src'')"
proof (intro conjI allI impI)
  fix d :: "('q, 's) raw_directives" and k
  assume k: "(k, dangerouslyDisableDefaultSrc) \<in> set d \<and> dashify k \<noteq> ''default-src''"
  show "\<exists>e. normalizeDirectives st \<lparr>directives = Some d, reportOnly = ro\<rparr> = Inl e"
  proof (cases "normalizeDirectives st \<lparr>directives = Some d, reportOnly = ro\<rparr>")
    case (Inl e)
    then show ?thesis by blast
  next
    case (Inr nds)
    from normalizeDirectives_Inr[OF this] obtain seen
      where "normalizeLoop (forIn d) [] {} = Inr (nds, seen)"
      by (auto simp: rawDirectivesOf_def)
    from normalizeLoop_fresh[OF this] k have False
      by (auto simp: list_all_iff forIn_set split: if_splits)
    then show ?thesis ..
  qed
qed (simp add: normalizeDirectives_def rawDirectivesOf_def order_eval name_eval)

theorem sentinel_only_for_default_src_witness:
  "(''objectSrc'', dangerouslyDisableDefaultSrc) \<in>
      set [(''defaultSrc'', Iterable [StringValue (quoted ''self'') :: (unit, unit) directive_value]),
           (''objectSrc'', dangerouslyDisableDefaultSrc)]
   \<and> dashify ''objectSrc'' \<noteq> ''default-src''
   \<and> (\<exists>e. normalizeDirectives (module_store :: (unit, unit) store)
       \<lparr>directives = Some [(''defaultSrc'', Iterable [StringValue (quoted ''self'')]),
                           (''objectSrc'', dangerouslyDisableDefaultSrc)],
        reportOnly = False\<rparr> = Inl e)"
proof -
  have h: "(''objectSrc'', dangerouslyDisableDefaultSrc) \<in>
      set [(''defaultSrc'', Iterable [StringValue (quoted ''self'') :: (unit, unit) directive_value]),
           (''objectSrc'', dangerouslyDisableDefaultSrc)]
   \<and> dashify ''objectSrc'' \<noteq> ''default-src''"
    by (simp add: name_eval)
  from sentinel_only_for_default_src[where st = "module_store :: (unit, unit) store" and ro = False,
      THEN conjunct1, rule_format, OF h] h
  show ?thesis by blast
qed

section \<open>The default configuration\<close>

text \<open>The contents of a new copy of the defaults, in the store of the loaded module.\<close>

lemma module_defaults:
  "rawDirectivesOf module_store \<lparr>directives = None, reportOnly = ro\<rparr> =
     [(''default-src'', Iterable [StringValue (quoted ''self'')]),
      (''base-uri'', Iterable [StringValue (quoted ''self'')]),
      (''block-all-mixed-content'', Iterable []),
      (''font-src'', Iterable [StringValue (quoted ''self''), StringValue ''https:'', StringValue ''data:'']),
      (''frame-ancestors'', Iterable [StringValue (quoted ''self'')]),
      (''img-src'', Iterable [StringValue (quoted ''self''), StringValue ''data:'']),
      (''object-src'', Iterable [StringValue (quoted ''none'')]),
      (''script-src'', Iterable [StringValue (quoted ''self'')]),
      (''script-src-attr'', Iterable [StringValue (quoted ''none'')]),
      (''style-src'', Iterable [StringValue (quoted ''self''), StringValue ''https:'',
                                StringValue (quoted ''unsafe-inline'')]),
      (''upgrade-insecure-requests'', Iterable [])]"
  by (simp add: rawDirectivesOf_def getDefaultDirectives_def contents_def module_store_def order_eval)

text \<open>
  In the store of the loaded module, before any caller has touched the arrays of the
  defaults: with no \<^verbatim>\<open>directives\<close> in the options, normalization takes the table of
  defaults and succeeds. The result has the eleven entries of the table, in its order, and
  exactly one of them is named \<^verbatim>\<open>default-src\<close>, with the value list \<^verbatim>\<open>["'self'"]\<close>.
\<close>

lemma default_configuration_loaded_module:
  "normalizeDirectives module_store \<lparr>directives = None, reportOnly = ro\<rparr> =
     Inr [\<lparr>directiveName = ''default-src'', directiveValue = [StringValue (quoted ''self'')]\<rparr>,
          \<lparr>directiveName = ''base-uri'', directiveValue = [StringValue (quoted ''self'')]\<rparr>,
          \<lparr>directiveName = ''block-all-mixed-content'', directiveValue = []\<rparr>,
          \<lparr>directiveName = ''font-src'', directiveValue =
             [StringValue (quoted ''self''), StringValue ''https:'', StringValue ''data:'']\<rparr>,
          \<lparr>directiveName = ''frame-ancestors'', directiveValue = [StringValue (quoted ''self'')]\<rparr>,
          \<lparr>directiveName = ''img-src'', directiveValue =
             [StringValue (quoted ''self''), StringValue ''data:'']\<rparr>,
          \<lparr>directiveName = ''object-src'', directiveValue = [StringValue (quoted ''none'')]\<rparr>,
          \<lparr>directiveName = ''script-src'', directiveValue = [StringValue (quoted ''self'')]\<rparr>,
          \<lparr>directiveName = ''script-src-attr'', directiveValue = [StringValue (quoted ''none'')]\<rparr>,
          \<lparr>directiveName = ''style-src'', directiveValue =
             [StringValue (quoted ''self''), StringValue ''https:'',
              StringValue (quoted ''unsafe-inline'')]\<rparr>,
          \<lparr>directiveName = ''upgrade-insecure-requests'', directiveValue = []\<rparr>]
   \<and> (\<exists>nds. normalizeDirectives module_store \<lparr>directives = None, reportOnly = ro\<rparr> = Inr nds
          \<and> filter (\<lambda>d. directiveName d = ''default-src'') nds =
              [\<lparr>directiveName = ''default-src'', directiveValue = [StringValue (quoted ''self'')]\<rparr>])"
  by (simp add: normalizeDirectives_def module_defaults order_eval name_eval)

section \<open>The rendered header\<close>

lemma set_join: "set (join sep xs) \<subseteq> set sep \<union> \<Union> (set ` set xs)"
  by (induction sep xs rule: join.induct) auto

lemma isDirectiveValueInvalid_iff:
  "isDirectiveValueInvalid v \<longleftrightarrow> CHR '';'' \<in> set v \<or> CHR '','' \<in> set v"
  by (auto simp: isDirectiveValueInvalid_def list_ex_iff)

lemma isDirectiveValueInvalid_append:
  "isDirectiveValueInvalid (a @ b) \<longleftrightarrow> isDirectiveValueInvalid a \<or> isDirectiveValueInvalid b"
  by (simp add: isDirectiveValueInvalid_def)

lemma pushed_name: "d \<in> set (pushed p) \<Longrightarrow> directiveName d = dashify (fst p)"
  by (cases "snd p") (auto simp: pushed_def)

lemma pushed_names:
  "map directiveName (concat (map pushed xs)) =
     map (\<lambda>p. dashify (fst p)) (filter (\<lambda>p. snd p \<noteq> dangerouslyDisableDefaultSrc \<and> snd p \<noteq> Falsy) xs)"
proof (induction xs)
  case Nil
  then show ?case by simp
next
  case (Cons p xs)
  then show ?case by (cases "snd p") (simp_all add: pushed_def)
qed

lemma normalizeDirectives_names:
  assumes "normalizeDirectives st options = Inr nds"
  shows "list_all (\<lambda>d. \<not> isDirectiveValueInvalid (directiveName d)) nds"
proof -
  from normalizeDirectives_Inr[OF assms] obtain seen
    where loop: "normalizeLoop (forIn (rawDirectivesOf st options)) [] {} = Inr (nds, seen)"
    by blast
  have nds: "nds = concat (map pushed (forIn (rawDirectivesOf st options)))"
    using normalizeLoop_result[OF loop] by simp
  have "\<not> isDirectiveValueInvalid (directiveName d)" if "d \<in> set nds" for d
  proof -
    from that nds obtain p where p: "p \<in> set (forIn (rawDirectivesOf st options))" "d \<in> set (pushed p)"
      by auto
    from normalizeLoop_fresh[OF loop] p(1) have "\<not> isDirectiveNameInvalid (fst p)"
      by (simp add: list_all_iff)
    from dashify_valid[OF this] pushed_name[OF p(2)] show ?thesis by simp
  qed
  then show ?thesis by (simp add: list_all_iff)
qed

lemma getHeaderValue_valid:
  "list_all (\<lambda>d. \<not> isDirectiveValueInvalid (accumulate req res (directiveValue d))) nds \<Longrightarrow>
   getHeaderValue req res nds =
     Inr (join '';'' (map (\<lambda>d. directiveName d @ accumulate req res (directiveValue d)) nds))"
  by (simp add: getHeaderValue_def getHeaderValueLoop_valid)


text \<open>
  C2. For a configuration that normalization accepts, and a request and response for which
  the accumulated value of every directive passes the separator check, the renderer returns
  a string: the rendered directives joined by \<^verbatim>\<open>;\<close>. No rendered directive contains a
  \<^verbatim>\<open>;\<close>, so the string has exactly one \<^verbatim>\<open>;\<close> between two consecutive directives and
  none elsewhere, and it contains no \<^verbatim>\<open>,\<close> at all.
\<close>

theorem render_separators:
  assumes "normalizeDirectives st options = Inr nds"
    and "list_all (\<lambda>d. \<not> isDirectiveValueInvalid (accumulate req res (directiveValue d))) nds"
  shows "\<exists>header. getHeaderValue req res nds = Inr header
           \<and> header = join '';'' (map (\<lambda>d. directiveName d @ accumulate req res (directiveValue d)) nds)
           \<and> list_all (\<lambda>d. CHR '';'' \<notin> set (directiveName d @ accumulate req res (directiveValue d))) nds
           \<and> Suc (count_list header (CHR '';'')) = length nds
           \<and> CHR '','' \<notin> set header"
proof -
  let ?piece = "\<lambda>d. directiveName d @ accumulate req res (directiveValue d)"
  let ?header = "join '';'' (map ?piece nds)"
  from normalizeDirectives_Inr[OF assms(1)] have ne: "nds \<noteq> []" by blast
  have pieces: "\<not> isDirectiveValueInvalid (?piece d)" if "d \<in> set nds" for d
    using that normalizeDirectives_names[OF assms(1)] assms(2)
    by (simp add: list_all_iff isDirectiveValueInvalid_append)
  have semi: "list_all (\<lambda>x. CHR '';'' \<notin> set x) (map ?piece nds)"
    using pieces by (auto simp: list_all_iff isDirectiveValueInvalid_iff)
  have "Suc (count_list ?header (CHR '';'')) = length (map ?piece nds)"
    using count_join[OF semi] ne by simp
  moreover have "CHR '','' \<notin> set ?header"
    using set_join[of "'';''" "map ?piece nds"] pieces
    by (auto simp: isDirectiveValueInvalid_iff)
  moreover have "list_all (\<lambda>d. CHR '';'' \<notin> set (?piece d)) nds"
    using semi by (simp add: list_all_iff)
  ultimately show ?thesis
    using getHeaderValue_valid[OF assms(2)] by simp
qed

theorem render_separators_witness:
  "normalizeDirectives (module_store :: (string, unit) store)
     \<lparr>directives = Some
        [(''defaultSrc'', Iterable [StringValue (quoted ''self'')]),
         (''scriptSrc'', Iterable [StringValue (quoted ''self''),
                                   FunctionValue (\<lambda>req res. quoted (''nonce-'' @ req))])],
      reportOnly = False\<rparr>
   = Inr [\<lparr>directiveName = ''default-src'', directiveValue = [StringValue (quoted ''self'')]\<rparr>,
          \<lparr>directiveName = ''script-src'', directiveValue =
             [StringValue (quoted ''self''), FunctionValue (\<lambda>req res. quoted (''nonce-'' @ req))]\<rparr>]
   \<and> list_all (\<lambda>d. \<not> isDirectiveValueInvalid (accumulate ''abc'' () (directiveValue d)))
        [\<lparr>directiveName = ''default-src'', directiveValue = [StringValue (quoted ''self'')]\<rparr>,
         \<lparr>directiveName = ''script-src'', directiveValue =
            [StringValue (quoted ''self''), FunctionValue (\<lambda>req res. quoted (''nonce-'' @ req))]\<rparr>]
   \<and> getHeaderValue ''abc'' ()
        [\<lparr>directiveName = ''default-src'', directiveValue = [StringValue (quoted ''self'')]\<rparr>,
         \<lparr>directiveName = ''script-src'', directiveValue =
            [StringValue (quoted ''self''), FunctionValue (\<lambda>req res. quoted (''nonce-'' @ req))]\<rparr>]
       = Inr (''default-src '' @ quoted ''self'' @ '';script-src '' @ quoted ''self'' @ '' ''
              @ quoted ''nonce-abc'')
   \<and> Suc (count_list (''default-src '' @ quoted ''self'' @ '';script-src '' @ quoted ''self'' @ '' ''
              @ quoted ''nonce-abc'') (CHR '';'')) = 2
   \<and> CHR '','' \<notin> set (''default-src '' @ quoted ''self'' @ '';script-src '' @ quoted ''self'' @ '' ''
              @ quoted ''nonce-abc'')"
proof -
  let ?nds = "[\<lparr>directiveName = ''default-src'', directiveValue = [StringValue (quoted ''self'')]\<rparr>,
          \<lparr>directiveName = ''script-src'', directiveValue =
             [StringValue (quoted ''self''), FunctionValue (\<lambda>req res. quoted (''nonce-'' @ req))]\<rparr>]
          :: (string, unit) NormalizedDirectives"
  have h1: "normalizeDirectives (module_store :: (string, unit) store)
     \<lparr>directives = Some
        [(''defaultSrc'', Iterable [StringValue (quoted ''self'')]),
         (''scriptSrc'', Iterable [StringValue (quoted ''self''),
                                   FunctionValue (\<lambda>req res. quoted (''nonce-'' @ req))])],
      reportOnly = False\<rparr> = Inr ?nds"
    by (simp add: normalizeDirectives_def rawDirectivesOf_def order_eval name_eval)
  have h2: "list_all (\<lambda>d. \<not> isDirectiveValueInvalid (accumulate ''abc'' () (directiveValue d))) ?nds"
    by (simp add: accumulate_def resolve_def isDirectiveValueInvalid_def)
  from render_separators[OF h1 h2] obtain header where
    header: "getHeaderValue ''abc'' () ?nds = Inr header"
      "header = join '';'' (map (\<lambda>d. directiveName d @ accumulate ''abc'' () (directiveValue d)) ?nds)"
      "Suc (count_list header (CHR '';'')) = length ?nds"
      "CHR '','' \<notin> set header"
    by blast
  have hv: "header = ''default-src '' @ quoted ''self'' @ '';script-src '' @ quoted ''self'' @ '' ''
              @ quoted ''nonce-abc''"
    unfolding header(2) by (simp add: accumulate_def resolve_def)
  from h1 h2 header(1,3,4) show ?thesis unfolding hv by simp
qed

section \<open>The format and the order of the header\<close>

lemma forIn_no_index:
  "list_all (\<lambda>p. \<not> isArrayIndex (fst p)) obj \<Longrightarrow> forIn obj = obj"
proof -
  assume a: "list_all (\<lambda>p. \<not> isArrayIndex (fst p)) obj"
  then have "filter (\<lambda>p. isArrayIndex (fst p)) obj = []"
    by (simp add: list_all_iff filter_empty_conv)
  moreover from a have "filter (\<lambda>p. \<not> isArrayIndex (fst p)) obj = obj"
    by (simp add: list_all_iff)
  ultimately show ?thesis by (simp add: forIn_def)
qed

lemma normalizeDirectives_order:
  assumes "normalizeDirectives st options = Inr nds"
  shows "map directiveName nds =
           map (\<lambda>p. dashify (fst p))
             (filter (\<lambda>p. snd p \<noteq> dangerouslyDisableDefaultSrc) (forIn (rawDirectivesOf st options)))"
proof -
  from normalizeDirectives_Inr[OF assms] obtain seen
    where loop: "normalizeLoop (forIn (rawDirectivesOf st options)) [] {} = Inr (nds, seen)"
    by blast
  from normalizeLoop_fresh[OF loop]
  have "filter (\<lambda>p. snd p \<noteq> dangerouslyDisableDefaultSrc \<and> snd p \<noteq> Falsy) (forIn (rawDirectivesOf st options))
      = filter (\<lambda>p. snd p \<noteq> dangerouslyDisableDefaultSrc) (forIn (rawDirectivesOf st options))"
    by (intro filter_cong) (auto simp: list_all_iff)
  with normalizeLoop_result[OF loop] show ?thesis
    by (simp add: pushed_names)
qed

text \<open>
  C7, as the code has it. When every accumulated value passes the check, the renderer
  returns the rendered directives joined by \<^verbatim>\<open>;\<close>, with no separator after the last one;
  a rendered directive is the name followed by each resolved element with one space before
  it, which is the bare name when there is no element. The directives come in the order of
  the normalized policy, and that is the order in which \<^verbatim>\<open>for ... in\<close> enumerates the keys
  of the configuration (the entry with the sentinel left out): the keys that are array
  indices first, in ascending numeric order, then the other keys in insertion order. A
  configuration without such a numeric key keeps its insertion order. The directives
  \<^verbatim>\<open>{ defaultSrc: ["'self'"], blockAllMixedContent: [] }\<close> render to
  \<^verbatim>\<open>default-src 'self';block-all-mixed-content\<close>.
\<close>

theorem render_format:
  fixes st :: "('q, 's) store" and nds policy :: "('q, 's) NormalizedDirectives"
  shows
  "(list_all (\<lambda>d. \<not> isDirectiveValueInvalid (accumulate req res (directiveValue d))) nds \<longrightarrow>
      getHeaderValue req res nds =
        Inr (join '';'' (map (\<lambda>d. directiveName d
               @ concat (map (\<lambda>element. CHR '' '' # resolve req res element) (directiveValue d))) nds)))
   \<and> (normalizeDirectives st options = Inr policy \<longrightarrow>
        map directiveName policy =
          map (\<lambda>p. dashify (fst p))
            (filter (\<lambda>p. snd p \<noteq> dangerouslyDisableDefaultSrc) (forIn (rawDirectivesOf st options))))
   \<and> (list_all (\<lambda>p. \<not> isArrayIndex (fst p)) (obj :: ('q, 's) raw_directives) \<longrightarrow> forIn obj = obj)
   \<and> normalizeDirectives st
        \<lparr>directives = Some [(''defaultSrc'', Iterable [StringValue (quoted ''self'')]),
                            (''blockAllMixedContent'', Iterable [])],
         reportOnly = ro\<rparr>
      = Inr [\<lparr>directiveName = ''default-src'', directiveValue = [StringValue (quoted ''self'')]\<rparr>,
             \<lparr>directiveName = ''block-all-mixed-content'', directiveValue = []\<rparr>]
   \<and> getHeaderValue req res
        [\<lparr>directiveName = ''default-src'', directiveValue = [StringValue (quoted ''self'')]\<rparr>,
         \<lparr>directiveName = ''block-all-mixed-content'', directiveValue = []\<rparr>]
      = Inr (''default-src '' @ quoted ''self'' @ '';block-all-mixed-content'')"
proof (intro conjI impI)
  assume "list_all (\<lambda>d. \<not> isDirectiveValueInvalid (accumulate req res (directiveValue d))) nds"
  from getHeaderValue_valid[OF this]
  show "getHeaderValue req res nds =
        Inr (join '';'' (map (\<lambda>d. directiveName d
               @ concat (map (\<lambda>element. CHR '' '' # resolve req res element) (directiveValue d))) nds))"
    by (simp add: accumulate_concat)
next
  assume "normalizeDirectives st options = Inr policy"
  from normalizeDirectives_order[OF this]
  show "map directiveName policy =
          map (\<lambda>p. dashify (fst p))
            (filter (\<lambda>p. snd p \<noteq> dangerouslyDisableDefaultSrc) (forIn (rawDirectivesOf st options)))" .
next
  assume "list_all (\<lambda>p. \<not> isArrayIndex (fst p)) obj"
  from forIn_no_index[OF this] show "forIn obj = obj" .
next
  show "normalizeDirectives st
        \<lparr>directives = Some [(''defaultSrc'', Iterable [StringValue (quoted ''self'')]),
                            (''blockAllMixedContent'', Iterable [])],
         reportOnly = ro\<rparr>
      = Inr [\<lparr>directiveName = ''default-src'', directiveValue = [StringValue (quoted ''self'')]\<rparr>,
             \<lparr>directiveName = ''block-all-mixed-content'', directiveValue = []\<rparr>]"
    by (simp add: normalizeDirectives_def rawDirectivesOf_def order_eval name_eval)
next
  show "getHeaderValue req res
        [\<lparr>directiveName = ''default-src'', directiveValue = [StringValue (quoted ''self'')]\<rparr>,
         \<lparr>directiveName = ''block-all-mixed-content'', directiveValue = []\<rparr>]
      = Inr (''default-src '' @ quoted ''self'' @ '';block-all-mixed-content'')"
    by (simp add: getHeaderValue_def accumulate_def resolve_def isDirectiveValueInvalid_def)
qed

theorem render_format_witness:
  "list_all (\<lambda>d. \<not> isDirectiveValueInvalid (accumulate ''abc'' () (directiveValue d)))
     [\<lparr>directiveName = ''default-src'', directiveValue = [StringValue (quoted ''self'')]\<rparr>,
      \<lparr>directiveName = ''script-src'', directiveValue =
         [StringValue (quoted ''self''), FunctionValue (\<lambda>req res. quoted (''nonce-'' @ req))]\<rparr>,
      \<lparr>directiveName = ''upgrade-insecure-requests'', directiveValue = []\<rparr>]
   \<and> getHeaderValue ''abc'' ()
     [\<lparr>directiveName = ''default-src'', directiveValue = [StringValue (quoted ''self'')]\<rparr>,
      \<lparr>directiveName = ''script-src'', directiveValue =
         [StringValue (quoted ''self''), FunctionValue (\<lambda>req res. quoted (''nonce-'' @ req))]\<rparr>,
      \<lparr>directiveName = ''upgrade-insecure-requests'', directiveValue = []\<rparr>]
     = Inr (''default-src '' @ quoted ''self'' @ '';script-src '' @ quoted ''self'' @ '' ''
              @ quoted ''nonce-abc'' @ '';upgrade-insecure-requests'')
   \<and> normalizeDirectives (module_store :: (string, unit) store)
       \<lparr>directives = Some [(''defaultSrc'', dangerouslyDisableDefaultSrc),
                           (''imgSrc'', Iterable [StringValue ''data:'']),
                           (''10'', Iterable []),
                           (''9'', RawString ''x'')],
        reportOnly = False\<rparr>
     = Inr [\<lparr>directiveName = ''9'', directiveValue = [StringValue ''x'']\<rparr>,
            \<lparr>directiveName = ''10'', directiveValue = []\<rparr>,
            \<lparr>directiveName = ''img-src'', directiveValue = [StringValue ''data:'']\<rparr>]
   \<and> map directiveName
        [\<lparr>directiveName = ''9'', directiveValue = [StringValue ''x'' :: (string, unit) directive_value]\<rparr>,
         \<lparr>directiveName = ''10'', directiveValue = []\<rparr>,
         \<lparr>directiveName = ''img-src'', directiveValue = [StringValue ''data:'']\<rparr>]
      = map (\<lambda>p. dashify (fst p))
          (filter (\<lambda>p. snd p \<noteq> dangerouslyDisableDefaultSrc)
            (forIn [(''defaultSrc'', dangerouslyDisableDefaultSrc),
                    (''imgSrc'', Iterable [StringValue ''data:'' :: (string, unit) directive_value]),
                    (''10'', Iterable []),
                    (''9'', RawString ''x'')]))
   \<and> list_all (\<lambda>p. \<not> isArrayIndex (fst p))
        [(''defaultSrc'', Iterable [StringValue (quoted ''self'') :: (string, unit) directive_value]),
         (''4294967295'', Iterable []), (''07'', Iterable [])]
   \<and> forIn [(''defaultSrc'', Iterable [StringValue (quoted ''self'') :: (string, unit) directive_value]),
         (''4294967295'', Iterable []), (''07'', Iterable [])]
      = [(''defaultSrc'', Iterable [StringValue (quoted ''self'')]),
         (''4294967295'', Iterable []), (''07'', Iterable [])]"
proof -
  let ?nds = "[\<lparr>directiveName = ''default-src'', directiveValue = [StringValue (quoted ''self'')]\<rparr>,
      \<lparr>directiveName = ''script-src'', directiveValue =
         [StringValue (quoted ''self''), FunctionValue (\<lambda>req res. quoted (''nonce-'' @ req))]\<rparr>,
      \<lparr>directiveName = ''upgrade-insecure-requests'', directiveValue = []\<rparr>]
      :: (string, unit) NormalizedDirectives"
  let ?d = "[(''defaultSrc'', dangerouslyDisableDefaultSrc),
             (''imgSrc'', Iterable [StringValue ''data:'']),
             (''10'', Iterable []),
             (''9'', RawString ''x'')] :: (string, unit) raw_directives"
  let ?policy = "[\<lparr>directiveName = ''9'', directiveValue = [StringValue ''x'']\<rparr>,
            \<lparr>directiveName = ''10'', directiveValue = []\<rparr>,
            \<lparr>directiveName = ''img-src'', directiveValue = [StringValue ''data:'']\<rparr>]
            :: (string, unit) NormalizedDirectives"
  let ?obj = "[(''defaultSrc'', Iterable [StringValue (quoted ''self'')]),
         (''4294967295'', Iterable []), (''07'', Iterable [])] :: (string, unit) raw_directives"
  let ?options = "\<lparr>directives = Some ?d, reportOnly = False\<rparr>"
  note rf = render_format[where st = "module_store :: (string, unit) store" and req = "''abc''"
      and res = "()" and nds = ?nds and options = ?options and policy = ?policy and obj = ?obj]
  have h1: "list_all (\<lambda>d. \<not> isDirectiveValueInvalid (accumulate ''abc'' () (directiveValue d))) ?nds"
    by (simp add: accumulate_def resolve_def isDirectiveValueInvalid_def)
  have h2: "normalizeDirectives (module_store :: (string, unit) store) ?options = Inr ?policy"
    by (simp add: normalizeDirectives_def rawDirectivesOf_def order_eval name_eval)
  have h3: "list_all (\<lambda>p. \<not> isArrayIndex (fst p)) ?obj"
    by (simp add: order_eval)
  from rf[THEN conjunct1, rule_format, OF h1]
  have c1: "getHeaderValue ''abc'' () ?nds
     = Inr (''default-src '' @ quoted ''self'' @ '';script-src '' @ quoted ''self'' @ '' ''
              @ quoted ''nonce-abc'' @ '';upgrade-insecure-requests'')"
    by (simp add: resolve_def)
  from rf[THEN conjunct2, THEN conjunct1, rule_format, OF h2]
  have c2: "map directiveName ?policy =
     map (\<lambda>p. dashify (fst p)) (filter (\<lambda>p. snd p \<noteq> dangerouslyDisableDefaultSrc) (forIn ?d))"
    by (simp add: rawDirectivesOf_def)
  from rf[THEN conjunct2, THEN conjunct2, THEN conjunct1, rule_format, OF h3]
  have c3: "forIn ?obj = ?obj" .
  from h1 c1 h2 c2 h3 c3 show ?thesis by blast
qed

text \<open>
  C7 as stated, with insertion order kept for every configuration, fails: in
  \<^verbatim>\<open>{ defaultSrc: ["'self'"], "0": [] }\<close> the key \<^verbatim>\<open>0\<close> is inserted last, is enumerated first,
  and the header is \<^verbatim>\<open>0;default-src 'self'\<close>.
\<close>

theorem insertion_order_counterexample:
  "normalizeDirectives (module_store :: (unit, unit) store)
     \<lparr>directives = Some [(''defaultSrc'', Iterable [StringValue (quoted ''self'')]),
                         (''0'', Iterable [])],
      reportOnly = False\<rparr>
   = Inr [\<lparr>directiveName = ''0'', directiveValue = []\<rparr>,
          \<lparr>directiveName = ''default-src'', directiveValue = [StringValue (quoted ''self'')]\<rparr>]
   \<and> getHeaderValue () ()
        [\<lparr>directiveName = ''0'', directiveValue = []\<rparr>,
         \<lparr>directiveName = ''default-src'', directiveValue = [StringValue (quoted ''self'')]\<rparr>]
      = Inr (''0;default-src '' @ quoted ''self'')"
  by (simp add: normalizeDirectives_def rawDirectivesOf_def order_eval name_eval
        getHeaderValue_def accumulate_def resolve_def)

section \<open>The middleware\<close>










section \<open>The empty string as a value\<close>

lemma accumulate_empty_elements:
  "list_all (\<lambda>element. resolve req res element = []) vs \<Longrightarrow>
   accumulate req res vs = replicate (length vs) (CHR '' '')"
  unfolding accumulate_concat by (induction vs) simp_all

text \<open>
  C10. The empty string is a string, so the loop of \<^verbatim>\<open>normalizeDirectives\<close> takes it as the
  one-element list \<^verbatim>\<open>[""]\<close>; the test for a falsy value comes after the test for a string.
  In the renderer, a value list whose elements all resolve to the empty string accumulates
  one space for each element. With at least one element the accumulated value is not
  empty, so the directive is rendered as the name followed by these spaces and not as the
  bare name: \<^verbatim>\<open>default-src\<close> with the value list \<^verbatim>\<open>[""]\<close> renders to \<^verbatim>\<open>default-src\<close> and a
  trailing space.
\<close>

theorem empty_string_value:
  fixes st :: "('q, 's) store" and vs :: "('q, 's) directive_value list"
    and rest :: "('q, 's) raw_directives"
  shows
  "(\<not> isDirectiveNameInvalid k \<and> dashify k \<notin> seen \<longrightarrow>
      normalizeLoop ((k, RawString []) # rest) result seen =
        normalizeLoop rest (result @ [\<lparr>directiveName = dashify k, directiveValue = [StringValue []]\<rparr>])
          (insert (dashify k) seen))
   \<and> normalizeDirectives st \<lparr>directives = Some [(''defaultSrc'', RawString [])], reportOnly = ro\<rparr>
       = Inr [\<lparr>directiveName = ''default-src'', directiveValue = [StringValue []]\<rparr>]
   \<and> (list_all (\<lambda>element. resolve req res element = []) vs \<longrightarrow>
        accumulate req res vs = replicate (length vs) (CHR '' '')
        \<and> getHeaderValue req res [\<lparr>directiveName = name, directiveValue = vs\<rparr>]
            = Inr (name @ replicate (length vs) (CHR '' '')))
   \<and> (vs \<noteq> [] \<longrightarrow> name @ replicate (length vs) (CHR '' '') \<noteq> name)
   \<and> getHeaderValue req res [\<lparr>directiveName = ''default-src'', directiveValue = [StringValue []]\<rparr>]
       = Inr ''default-src ''"
proof (intro conjI impI)
  assume "\<not> isDirectiveNameInvalid k \<and> dashify k \<notin> seen"
  then show "normalizeLoop ((k, RawString []) # rest) result seen =
        normalizeLoop rest (result @ [\<lparr>directiveName = dashify k, directiveValue = [StringValue []]\<rparr>])
          (insert (dashify k) seen)"
    by (simp add: hasInvalidString_def isDirectiveValueInvalid_def)
next
  show "normalizeDirectives st \<lparr>directives = Some [(''defaultSrc'', RawString [])], reportOnly = ro\<rparr>
       = Inr [\<lparr>directiveName = ''default-src'', directiveValue = [StringValue []]\<rparr>]"
    by (simp add: normalizeDirectives_def rawDirectivesOf_def order_eval name_eval)
next
  assume a: "list_all (\<lambda>element. resolve req res element = []) vs"
  from accumulate_empty_elements[OF a]
  show "accumulate req res vs = replicate (length vs) (CHR '' '')" .
next
  assume a: "list_all (\<lambda>element. resolve req res element = []) vs"
  have acc: "accumulate req res vs = replicate (length vs) (CHR '' '')"
    by (rule accumulate_empty_elements[OF a])
  have "\<not> isDirectiveValueInvalid (accumulate req res vs)"
    unfolding acc by (simp add: isDirectiveValueInvalid_iff)
  then have "list_all (\<lambda>d. \<not> isDirectiveValueInvalid (accumulate req res (directiveValue d)))
               [\<lparr>directiveName = name, directiveValue = vs\<rparr>]"
    by simp
  from getHeaderValue_valid[OF this] acc
  show "getHeaderValue req res [\<lparr>directiveName = name, directiveValue = vs\<rparr>]
            = Inr (name @ replicate (length vs) (CHR '' ''))"
    by simp
next
  assume "vs \<noteq> []"
  then show "name @ replicate (length vs) (CHR '' '') \<noteq> name" by simp
next
  show "getHeaderValue req res [\<lparr>directiveName = ''default-src'', directiveValue = [StringValue []]\<rparr>]
       = Inr ''default-src ''"
    by (simp add: getHeaderValue_def accumulate_def resolve_def isDirectiveValueInvalid_def)
qed

theorem empty_string_value_witness:
  "\<not> isDirectiveNameInvalid ''imgSrc'' \<and> dashify ''imgSrc'' \<notin> {''default-src''}
   \<and> normalizeLoop [(''imgSrc'', RawString [])]
        [\<lparr>directiveName = ''default-src'', directiveValue = [StringValue (quoted ''self'') :: (string, unit) directive_value]\<rparr>]
        {''default-src''}
      = Inr ([\<lparr>directiveName = ''default-src'', directiveValue = [StringValue (quoted ''self'')]\<rparr>,
              \<lparr>directiveName = ''img-src'', directiveValue = [StringValue []]\<rparr>],
             {''img-src'', ''default-src''})
   \<and> list_all (\<lambda>element. resolve [] () element = [])
        [StringValue [], FunctionValue (\<lambda>req res. req), StringValue []]
   \<and> accumulate [] () [StringValue [], FunctionValue (\<lambda>req res. req), StringValue []] = ''   ''
   \<and> getHeaderValue [] ()
        [\<lparr>directiveName = ''img-src'',
          directiveValue = [StringValue [], FunctionValue (\<lambda>req res. req), StringValue []]\<rparr>]
      = Inr ''img-src   ''
   \<and> [StringValue [], FunctionValue (\<lambda>req res. req), StringValue [] :: (string, unit) directive_value] \<noteq> []
   \<and> ''img-src   '' \<noteq> ''img-src''"
proof -
  let ?vs = "[StringValue [], FunctionValue (\<lambda>req res. req), StringValue []]
             :: (string, unit) directive_value list"
  note t = empty_string_value[where k = "''imgSrc''" and seen = "{''default-src''}"
      and rest = "[]" and vs = ?vs and req = "[]" and res = "()" and name = "''img-src''"
      and result = "[\<lparr>directiveName = ''default-src'', directiveValue = [StringValue (quoted ''self'')]\<rparr>]"
      and st = "module_store :: (string, unit) store"]
  have h1: "\<not> isDirectiveNameInvalid ''imgSrc'' \<and> dashify ''imgSrc'' \<notin> {''default-src''}"
    by (simp add: name_eval)
  have h2: "list_all (\<lambda>element. resolve [] () element = []) ?vs"
    by (simp add: resolve_def)
  have h3: "?vs \<noteq> []" by simp
  have d: "dashify ''imgSrc'' = ''img-src''" by (simp add: name_eval)
  from t[THEN conjunct1, rule_format, OF h1]
  have c1: "normalizeLoop [(''imgSrc'', RawString [])]
        [\<lparr>directiveName = ''default-src'', directiveValue = [StringValue (quoted ''self'') :: (string, unit) directive_value]\<rparr>]
        {''default-src''}
      = Inr ([\<lparr>directiveName = ''default-src'', directiveValue = [StringValue (quoted ''self'')]\<rparr>,
              \<lparr>directiveName = ''img-src'', directiveValue = [StringValue []]\<rparr>],
             {''img-src'', ''default-src''})"
    by (simp add: d)
  from t[THEN conjunct2, THEN conjunct2, THEN conjunct1, rule_format, OF h2]
  have c2: "accumulate [] () ?vs = ''   ''"
    and c3: "getHeaderValue [] () [\<lparr>directiveName = ''img-src'', directiveValue = ?vs\<rparr>]
      = Inr ''img-src   ''"
    by (simp_all add: eval_nat_numeral)
  from t[THEN conjunct2, THEN conjunct2, THEN conjunct2, THEN conjunct1, rule_format, OF h3]
  have c4: "''img-src   '' \<noteq> ''img-src''" by simp
  from h1 c1 h2 c2 c3 h3 c4 show ?thesis by blast
qed

section \<open>Camel case and kebab case\<close>

lemma normalizeLoop_append:
  "normalizeLoop (xs @ ys) result seen =
     (case normalizeLoop xs result seen of
        Inl e \<Rightarrow> Inl e
      | Inr (r, s) \<Rightarrow> normalizeLoop ys r s)"
proof (induction xs arbitrary: result seen)
  case Nil
  then show ?case by simp
next
  case (Cons p xs)
  obtain k v where p: "p = (k, v)" by (cases p)
  show ?case unfolding p using Cons.IH
    by (cases v) simp_all
qed

lemma normalizeLoop_same_name:
  assumes "\<not> isDirectiveNameInvalid k" and "\<not> isDirectiveNameInvalid k'" and "dashify k = dashify k'"
  shows "normalizeLoop ((k, v) # rest) result seen = normalizeLoop ((k', v) # rest) result seen"
  using assms(1,2) by (cases v) (simp_all add: assms(3))

lemma forIn_plain_key:
  assumes "\<not> isArrayIndex k"
  shows "forIn (before @ (k, v) # after) =
           (sort_key (\<lambda>p. decimal (fst p)) (filter (\<lambda>p. isArrayIndex (fst p)) (before @ after))
            @ filter (\<lambda>p. \<not> isArrayIndex (fst p)) before)
           @ (k, v) # filter (\<lambda>p. \<not> isArrayIndex (fst p)) after"
  using assms by (simp add: forIn_def)

lemma normalizeDirectives_same_name:
  fixes st :: "('q, 's) store"
  assumes "\<not> isDirectiveNameInvalid k" and "\<not> isDirectiveNameInvalid k'" and "dashify k = dashify k'"
    and "\<not> isArrayIndex k" and "\<not> isArrayIndex k'"
  shows "normalizeDirectives st \<lparr>directives = Some (before @ (k, v) # after), reportOnly = ro\<rparr>
       = normalizeDirectives st \<lparr>directives = Some (before @ (k', v) # after), reportOnly = ro\<rparr>"
proof -
  define earlier where
    "earlier = sort_key (\<lambda>p. decimal (fst p)) (filter (\<lambda>p. isArrayIndex (fst p)) (before @ after))
               @ filter (\<lambda>p. \<not> isArrayIndex (fst p)) before"
  define later where "later = filter (\<lambda>p. \<not> isArrayIndex (fst p)) after"
  have k: "forIn (before @ (k, v) # after) = earlier @ (k, v) # later"
    unfolding earlier_def later_def by (rule forIn_plain_key[OF assms(4)])
  have k': "forIn (before @ (k', v) # after) = earlier @ (k', v) # later"
    unfolding earlier_def later_def by (rule forIn_plain_key[OF assms(5)])
  have "normalizeLoop (earlier @ (k, v) # later) [] {} = normalizeLoop (earlier @ (k', v) # later) [] {}"
  proof (cases "normalizeLoop earlier [] {}")
    case (Inl e)
    then show ?thesis by (simp add: normalizeLoop_append)
  next
    case (Inr p)
    obtain r s where p: "p = (r, s)" by (cases p)
    have "normalizeLoop (earlier @ (k, v) # later) [] {} = normalizeLoop ((k, v) # later) r s"
      unfolding normalizeLoop_append[of earlier] Inr p by simp
    also have "\<dots> = normalizeLoop ((k', v) # later) r s"
      by (rule normalizeLoop_same_name[OF assms(1-3)])
    also have "\<dots> = normalizeLoop (earlier @ (k', v) # later) [] {}"
      unfolding normalizeLoop_append[of earlier] Inr p by simp
    finally show ?thesis .
  qed
  then show ?thesis by (simp add: normalizeDirectives_def rawDirectivesOf_def k k')
qed

lemma duplicate_names_fail:
  fixes st :: "('q, 's) store"
  assumes "(k1, v1) \<in> set d" and "(k2, v2) \<in> set d" and "k1 \<noteq> k2" and "dashify k1 = dashify k2"
  shows "\<exists>e. normalizeDirectives st \<lparr>directives = Some d, reportOnly = ro\<rparr> = Inl e"
proof (cases "normalizeDirectives st \<lparr>directives = Some d, reportOnly = ro\<rparr>")
  case (Inl e)
  then show ?thesis by blast
next
  case (Inr nds)
  from normalizeDirectives_Inr[OF this] obtain seen
    where "normalizeLoop (forIn d) [] {} = Inr (nds, seen)"
    by (auto simp: rawDirectivesOf_def)
  from normalizeLoop_distinct[OF this] have "inj_on (\<lambda>p. dashify (fst p)) (set d)"
    by (simp add: distinct_map forIn_set)
  from inj_onD[OF this, of "(k1, v1)" "(k2, v2)"] assms have False by simp
  then show ?thesis ..
qed

text \<open>
  C6, as the code has it. Canonicalization maps \<^verbatim>\<open>scriptSrc\<close> and \<^verbatim>\<open>script-src\<close> to the same
  name \<^verbatim>\<open>script-src\<close>, and the loop makes the same entry of \<^verbatim>\<open>scriptSrc: ["'self'"]\<close> and of
  \<^verbatim>\<open>"script-src": ["'self'"]\<close>. In any configuration, the key \<^verbatim>\<open>scriptSrc\<close> and the key
  \<^verbatim>\<open>script-src\<close> (more generally, two valid non-numeric keys of the same canonical name), at
  the same place and with the same value, give the same outcome of normalization. With
  \<^verbatim>\<open>defaultSrc: ["'self'"]\<close> also supplied, the outcome is in both cases the policy with the
  entry \<^verbatim>\<open>script-src\<close>, \<^verbatim>\<open>["'self'"]\<close>. The configuration with both keys fails with the
  duplicate-directive error for \<^verbatim>\<open>script-src\<close>, and every configuration with two different
  keys of the same canonical name fails.
\<close>

theorem camel_and_kebab_names:
  fixes st :: "('q, 's) store" and before after :: "('q, 's) raw_directives"
  shows
  "dashify ''scriptSrc'' = ''script-src'' \<and> dashify ''script-src'' = ''script-src''
   \<and> normalizeLoop [(''scriptSrc'', Iterable [StringValue (quoted ''self'')])] [] {}
     = Inr ([\<lparr>directiveName = ''script-src'',
              directiveValue = [StringValue (quoted ''self'') :: ('q, 's) directive_value]\<rparr>],
            {''script-src''})
   \<and> normalizeLoop [(''script-src'', Iterable [StringValue (quoted ''self'')])] [] {}
     = Inr ([\<lparr>directiveName = ''script-src'',
              directiveValue = [StringValue (quoted ''self'') :: ('q, 's) directive_value]\<rparr>],
            {''script-src''})
   \<and> normalizeDirectives st \<lparr>directives = Some (before @ (''scriptSrc'', v) # after), reportOnly = ro\<rparr>
     = normalizeDirectives st \<lparr>directives = Some (before @ (''script-src'', v) # after), reportOnly = ro\<rparr>
   \<and> (\<not> isDirectiveNameInvalid k \<and> \<not> isDirectiveNameInvalid k' \<and> dashify k = dashify k'
        \<and> \<not> isArrayIndex k \<and> \<not> isArrayIndex k' \<longrightarrow>
       normalizeDirectives st \<lparr>directives = Some (before @ (k, v) # after), reportOnly = ro\<rparr>
     = normalizeDirectives st \<lparr>directives = Some (before @ (k', v) # after), reportOnly = ro\<rparr>)
   \<and> normalizeDirectives st
        \<lparr>directives = Some [(''defaultSrc'', Iterable [StringValue (quoted ''self'')]),
                            (''scriptSrc'', Iterable [StringValue (quoted ''self'')])],
         reportOnly = ro\<rparr>
     = Inr [\<lparr>directiveName = ''default-src'', directiveValue = [StringValue (quoted ''self'')]\<rparr>,
            \<lparr>directiveName = ''script-src'', directiveValue = [StringValue (quoted ''self'')]\<rparr>]
   \<and> normalizeDirectives st
        \<lparr>directives = Some [(''defaultSrc'', Iterable [StringValue (quoted ''self'')]),
                            (''script-src'', Iterable [StringValue (quoted ''self'')])],
         reportOnly = ro\<rparr>
     = Inr [\<lparr>directiveName = ''default-src'', directiveValue = [StringValue (quoted ''self'')]\<rparr>,
            \<lparr>directiveName = ''script-src'', directiveValue = [StringValue (quoted ''self'')]\<rparr>]
   \<and> normalizeDirectives st
        \<lparr>directives = Some [(''scriptSrc'', Iterable [StringValue (quoted ''self'')]),
                            (''script-src'', Iterable [StringValue (quoted ''self'')])],
         reportOnly = ro\<rparr>
     = Inl (DuplicateDirective ''script-src'')
   \<and> (\<forall>d k1 v1 k2 v2. (k1, v1) \<in> set d \<and> (k2, v2) \<in> set d \<and> k1 \<noteq> k2 \<and> dashify k1 = dashify k2 \<longrightarrow>
        (\<exists>e. normalizeDirectives st \<lparr>directives = Some d, reportOnly = ro\<rparr> = Inl e))"
proof -
  have names: "dashify ''scriptSrc'' = ''script-src''" "dashify ''script-src'' = ''script-src''"
    "\<not> isDirectiveNameInvalid ''scriptSrc''" "\<not> isDirectiveNameInvalid ''script-src''"
    by (simp_all add: name_eval)
  have plain: "\<not> isArrayIndex ''scriptSrc''" "\<not> isArrayIndex ''script-src''"
    by (simp_all add: order_eval)
  have entry: "normalizeLoop [(''scriptSrc'', Iterable [StringValue (quoted ''self'')])] [] {}
     = Inr ([\<lparr>directiveName = ''script-src'',
              directiveValue = [StringValue (quoted ''self'') :: ('q, 's) directive_value]\<rparr>],
            {''script-src''})"
    "normalizeLoop [(''script-src'', Iterable [StringValue (quoted ''self'')])] [] {}
     = Inr ([\<lparr>directiveName = ''script-src'',
              directiveValue = [StringValue (quoted ''self'') :: ('q, 's) directive_value]\<rparr>],
            {''script-src''})"
    by (simp_all add: name_eval)
  have same: "normalizeDirectives st
        \<lparr>directives = Some (before @ (''scriptSrc'', v) # after), reportOnly = ro\<rparr>
     = normalizeDirectives st
        \<lparr>directives = Some (before @ (''script-src'', v) # after), reportOnly = ro\<rparr>"
    by (rule normalizeDirectives_same_name[OF names(3,4) _ plain]) (simp add: names)
  have general: "normalizeDirectives st \<lparr>directives = Some (before @ (k, v) # after), reportOnly = ro\<rparr>
     = normalizeDirectives st \<lparr>directives = Some (before @ (k', v) # after), reportOnly = ro\<rparr>"
    if "\<not> isDirectiveNameInvalid k \<and> \<not> isDirectiveNameInvalid k' \<and> dashify k = dashify k'
        \<and> \<not> isArrayIndex k \<and> \<not> isArrayIndex k'"
    using that normalizeDirectives_same_name[of k k' st before v after ro] by blast
  have camel: "normalizeDirectives st
        \<lparr>directives = Some [(''defaultSrc'', Iterable [StringValue (quoted ''self'')]),
                            (''scriptSrc'', Iterable [StringValue (quoted ''self'')])],
         reportOnly = ro\<rparr>
     = Inr [\<lparr>directiveName = ''default-src'', directiveValue = [StringValue (quoted ''self'')]\<rparr>,
            \<lparr>directiveName = ''script-src'', directiveValue = [StringValue (quoted ''self'')]\<rparr>]"
    by (simp add: normalizeDirectives_def rawDirectivesOf_def order_eval name_eval)
  have kebab: "normalizeDirectives st
        \<lparr>directives = Some [(''defaultSrc'', Iterable [StringValue (quoted ''self'')]),
                            (''script-src'', Iterable [StringValue (quoted ''self'')])],
         reportOnly = ro\<rparr>
     = Inr [\<lparr>directiveName = ''default-src'', directiveValue = [StringValue (quoted ''self'')]\<rparr>,
            \<lparr>directiveName = ''script-src'', directiveValue = [StringValue (quoted ''self'')]\<rparr>]"
    by (simp add: normalizeDirectives_def rawDirectivesOf_def order_eval name_eval)
  have both: "normalizeDirectives st
        \<lparr>directives = Some [(''scriptSrc'', Iterable [StringValue (quoted ''self'')]),
                            (''script-src'', Iterable [StringValue (quoted ''self'')])],
         reportOnly = ro\<rparr>
     = Inl (DuplicateDirective ''script-src'')"
    by (simp add: normalizeDirectives_def rawDirectivesOf_def order_eval name_eval)
  have dup: "\<exists>e. normalizeDirectives st \<lparr>directives = Some d, reportOnly = ro\<rparr> = Inl e"
    if "(k1, v1) \<in> set d \<and> (k2, v2) \<in> set d \<and> k1 \<noteq> k2 \<and> dashify k1 = dashify k2"
    for d :: "('q, 's) raw_directives" and k1 v1 k2 v2
    using that duplicate_names_fail[of k1 v1 d k2 v2 st ro] by blast
  from names(1,2) entry same general camel kebab both dup show ?thesis by blast
qed

theorem camel_and_kebab_names_witness:
  "\<not> isDirectiveNameInvalid ''imgSrc'' \<and> \<not> isDirectiveNameInvalid ''img-src''
   \<and> dashify ''imgSrc'' = dashify ''img-src''
   \<and> \<not> isArrayIndex ''imgSrc'' \<and> \<not> isArrayIndex ''img-src''
   \<and> normalizeDirectives (module_store :: (unit, unit) store)
        \<lparr>directives = Some ([(''defaultSrc'', Iterable [StringValue (quoted ''self'')])]
                             @ (''imgSrc'', RawString ''data:'') # []),
         reportOnly = False\<rparr>
     = normalizeDirectives (module_store :: (unit, unit) store)
        \<lparr>directives = Some ([(''defaultSrc'', Iterable [StringValue (quoted ''self'')])]
                             @ (''img-src'', RawString ''data:'') # []),
         reportOnly = False\<rparr>
   \<and> (''imgSrc'', RawString ''data:'')
       \<in> set [(''defaultSrc'', Iterable [StringValue (quoted ''self'') :: (unit, unit) directive_value]),
               (''imgSrc'', RawString ''data:''), (''img-src'', Iterable [])]
   \<and> (''img-src'', Iterable [])
       \<in> set [(''defaultSrc'', Iterable [StringValue (quoted ''self'') :: (unit, unit) directive_value]),
               (''imgSrc'', RawString ''data:''), (''img-src'', Iterable [])]
   \<and> ''imgSrc'' \<noteq> ''img-src''
   \<and> (\<exists>e. normalizeDirectives (module_store :: (unit, unit) store)
        \<lparr>directives = Some [(''defaultSrc'', Iterable [StringValue (quoted ''self'')]),
                            (''imgSrc'', RawString ''data:''), (''img-src'', Iterable [])],
         reportOnly = False\<rparr> = Inl e)"
proof -
  let ?d = "[(''defaultSrc'', Iterable [StringValue (quoted ''self'')]),
             (''imgSrc'', RawString ''data:''), (''img-src'', Iterable [])]
            :: (unit, unit) raw_directives"
  note t = camel_and_kebab_names[where st = "module_store :: (unit, unit) store" and ro = False
      and k = "''imgSrc''" and k' = "''img-src''" and v = "RawString ''data:''"
      and before = "[(''defaultSrc'', Iterable [StringValue (quoted ''self'')])]" and after = "[]"]
  have h1: "\<not> isDirectiveNameInvalid ''imgSrc'' \<and> \<not> isDirectiveNameInvalid ''img-src''
       \<and> dashify ''imgSrc'' = dashify ''img-src''
       \<and> \<not> isArrayIndex ''imgSrc'' \<and> \<not> isArrayIndex ''img-src''"
    by (simp add: name_eval order_eval)
  have h2: "(''imgSrc'', RawString ''data:'') \<in> set ?d \<and> (''img-src'', Iterable []) \<in> set ?d
       \<and> ''imgSrc'' \<noteq> ''img-src'' \<and> dashify ''imgSrc'' = dashify ''img-src''"
    by (simp add: name_eval)
  note c1 = t[THEN conjunct2, THEN conjunct2, THEN conjunct2, THEN conjunct2, THEN conjunct2,
      THEN conjunct1, rule_format, OF h1]
  note c2 = t[THEN conjunct2, THEN conjunct2, THEN conjunct2, THEN conjunct2, THEN conjunct2,
      THEN conjunct2, THEN conjunct2, THEN conjunct2, THEN conjunct2, rule_format, OF h2]
  from h1 c1 h2 c2 show ?thesis by blast
qed


text \<open>
  C6 as stated fails: the configurations \<^verbatim>\<open>{ scriptSrc: ["'self'"] }\<close> and
  \<^verbatim>\<open>{ "script-src": ["'self'"] }\<close> produce no normalized entries; both are rejected with the
  error "needs a default-src".
\<close>

theorem single_directive_counterexample:
  "normalizeDirectives (module_store :: (unit, unit) store)
     \<lparr>directives = Some [(''scriptSrc'', Iterable [StringValue (quoted ''self'')])],
      reportOnly = False\<rparr>
   = Inl NeedsDefaultSrc
   \<and> normalizeDirectives (module_store :: (unit, unit) store)
     \<lparr>directives = Some [(''script-src'', Iterable [StringValue (quoted ''self'')])],
      reportOnly = False\<rparr>
   = Inl NeedsDefaultSrc"
  by (simp add: normalizeDirectives_def rawDirectivesOf_def order_eval name_eval)

section \<open>A name that begins with a capital letter\<close>

lemma isUpper_not_isDigit: "isUpper c \<Longrightarrow> \<not> isDigit c"
  unfolding isUpper_def by (simp, elim disjE; simp add: isDigit_def)

lemma isUpper_not_isArrayIndex: "isUpper c \<Longrightarrow> \<not> isArrayIndex (c # cs)"
  by (simp add: isArrayIndex_def isUpper_not_isDigit)

lemma isDirectiveNameInvalid_Cons_upper:
  "isUpper c \<Longrightarrow> isDirectiveNameInvalid (c # cs) \<longleftrightarrow> list_ex (\<lambda>c. \<not> isNameChar c) cs"
  by (simp add: isDirectiveNameInvalid_def isNameChar_def)

lemma normalizeDirectives_member:
  fixes st :: "('q, 's) store"
  assumes "normalizeDirectives st \<lparr>directives = Some d, reportOnly = ro\<rparr> = Inr nds"
    and "(k, v) \<in> set d" and "v \<noteq> dangerouslyDisableDefaultSrc"
  shows "\<exists>vs. \<lparr>directiveName = dashify k, directiveValue = vs\<rparr> \<in> set nds"
proof -
  from normalizeDirectives_Inr[OF assms(1)] obtain seen
    where loop: "normalizeLoop (forIn d) [] {} = Inr (nds, seen)"
    by (auto simp: rawDirectivesOf_def)
  from assms(2) have mem: "(k, v) \<in> set (forIn d)" by (simp add: forIn_set)
  from normalizeLoop_fresh[OF loop] mem have "v \<noteq> Falsy"
    by (auto simp: list_all_iff)
  with assms(3) have "\<exists>vs. pushed (k, v) = [\<lparr>directiveName = dashify k, directiveValue = vs\<rparr>]"
    by (cases v) (simp_all add: pushed_def)
  then obtain vs where "pushed (k, v) = [\<lparr>directiveName = dashify k, directiveValue = vs\<rparr>]" ..
  with mem have "\<lparr>directiveName = dashify k, directiveValue = vs\<rparr> \<in> set (concat (map pushed (forIn d)))"
    by force
  with normalizeLoop_result[OF loop] show ?thesis by auto
qed

lemma sentinel_fails:
  fixes st :: "('q, 's) store"
  assumes "(k, dangerouslyDisableDefaultSrc) \<in> set d" and "dashify k \<noteq> ''default-src''"
  shows "\<exists>e. normalizeDirectives st \<lparr>directives = Some d, reportOnly = ro\<rparr> = Inl e"
proof (cases "normalizeDirectives st \<lparr>directives = Some d, reportOnly = ro\<rparr>")
  case (Inl e)
  then show ?thesis by blast
next
  case (Inr nds)
  from normalizeDirectives_Inr[OF this] obtain seen
    where "normalizeLoop (forIn d) [] {} = Inr (nds, seen)"
    by (auto simp: rawDirectivesOf_def)
  from normalizeLoop_fresh[OF this] assms have False
    by (auto simp: list_all_iff forIn_set split: if_splits)
  then show ?thesis ..
qed

text \<open>
  C9. A raw name that begins with a capital letter gets a canonical name that begins with a
  hyphen, as \<^verbatim>\<open>DefaultSrc\<close> gets \<^verbatim>\<open>-default-src\<close>. The capital letter is a legal character,
  so the name is valid exactly when the rest of it is. The canonical name is not
  \<^verbatim>\<open>default-src\<close>, so a configuration with only such a name (and a valid value) fails with
  the error "needs a default-src". In a configuration that normalization accepts, the
  directive is in the policy under its name with the hyphen in front, and the header holds
  that name as it is.
\<close>

theorem leading_capital_letter:
  fixes st :: "('q, 's) store" and elements :: "('q, 's) directive_value list"
    and d :: "('q, 's) raw_directives"
  assumes "isUpper c"
  shows "dashify (c # cs) = CHR ''-'' # toLowerCase c # dashify cs
   \<and> (isDirectiveNameInvalid (c # cs) \<longleftrightarrow> list_ex (\<lambda>c. \<not> isNameChar c) cs)
   \<and> dashify (c # cs) \<noteq> ''default-src''
   \<and> (list_all isNameChar cs \<and> \<not> hasInvalidString elements \<longrightarrow>
        normalizeDirectives st \<lparr>directives = Some [(c # cs, Iterable elements)], reportOnly = ro\<rparr>
          = Inl NeedsDefaultSrc)
   \<and> (list_all isNameChar cs \<and> \<not> isDirectiveValueInvalid s \<longrightarrow>
        normalizeDirectives st \<lparr>directives = Some [(c # cs, RawString s)], reportOnly = ro\<rparr>
          = Inl NeedsDefaultSrc)
   \<and> ((c # cs, v) \<in> set d
        \<and> normalizeDirectives st \<lparr>directives = Some d, reportOnly = ro\<rparr> = Inr nds
        \<and> list_all (\<lambda>d. \<not> isDirectiveValueInvalid (accumulate req res (directiveValue d))) nds \<longrightarrow>
        (\<exists>vs. \<lparr>directiveName = CHR ''-'' # toLowerCase c # dashify cs, directiveValue = vs\<rparr> \<in> set nds)
        \<and> getHeaderValue req res nds =
            Inr (join '';'' (map (\<lambda>d. directiveName d @ accumulate req res (directiveValue d)) nds)))"
proof -
  have dash: "dashify (c # cs) = CHR ''-'' # toLowerCase c # dashify cs"
    using assms by (simp add: dashify_Cons)
  have valid: "isDirectiveNameInvalid (c # cs) \<longleftrightarrow> list_ex (\<lambda>c. \<not> isNameChar c) cs"
    by (rule isDirectiveNameInvalid_Cons_upper[OF assms])
  have other: "dashify (c # cs) \<noteq> ''default-src''"
    unfolding dash by simp
  have plain: "forIn [(c # cs, x)] = [(c # cs, x)]" for x :: "('q, 's) raw_directive_value"
    using isUpper_not_isArrayIndex[OF assms] by (simp add: forIn_def)
  have array: "normalizeDirectives st \<lparr>directives = Some [(c # cs, Iterable elements)], reportOnly = ro\<rparr>
          = Inl NeedsDefaultSrc" if "list_all isNameChar cs \<and> \<not> hasInvalidString elements"
    using that other
    by (simp add: normalizeDirectives_def rawDirectivesOf_def plain valid list_ex_iff list_all_iff)
  have string: "normalizeDirectives st \<lparr>directives = Some [(c # cs, RawString s)], reportOnly = ro\<rparr>
          = Inl NeedsDefaultSrc" if "list_all isNameChar cs \<and> \<not> isDirectiveValueInvalid s"
    using that other
    by (simp add: normalizeDirectives_def rawDirectivesOf_def plain valid list_ex_iff list_all_iff
          hasInvalidString_def)
  have emitted: "(\<exists>vs. \<lparr>directiveName = CHR ''-'' # toLowerCase c # dashify cs, directiveValue = vs\<rparr> \<in> set nds)
        \<and> getHeaderValue req res nds =
            Inr (join '';'' (map (\<lambda>d. directiveName d @ accumulate req res (directiveValue d)) nds))"
    if a: "(c # cs, v) \<in> set d
        \<and> normalizeDirectives st \<lparr>directives = Some d, reportOnly = ro\<rparr> = Inr nds
        \<and> list_all (\<lambda>d. \<not> isDirectiveValueInvalid (accumulate req res (directiveValue d))) nds"
  proof -
    have "v \<noteq> dangerouslyDisableDefaultSrc"
    proof
      assume "v = dangerouslyDisableDefaultSrc"
      with a other sentinel_fails[of "c # cs" d st ro] show False by auto
    qed
    with a normalizeDirectives_member[of st d ro nds "c # cs" v] getHeaderValue_valid[of req res nds]
    show ?thesis by (simp add: dash)
  qed
  from dash valid other array string emitted show ?thesis by blast
qed

theorem leading_capital_letter_witness:
  "isUpper CHR ''D''
   \<and> dashify ''DefaultSrc'' = ''-default-src''
   \<and> \<not> isDirectiveNameInvalid ''DefaultSrc''
   \<and> ''-default-src'' \<noteq> ''default-src''
   \<and> list_all isNameChar ''efaultSrc''
   \<and> \<not> hasInvalidString [StringValue (quoted ''self'') :: (unit, unit) directive_value]
   \<and> normalizeDirectives (module_store :: (unit, unit) store)
        \<lparr>directives = Some [(''DefaultSrc'', Iterable [StringValue (quoted ''self'')])],
         reportOnly = False\<rparr> = Inl NeedsDefaultSrc
   \<and> \<not> isDirectiveValueInvalid (quoted ''self'')
   \<and> normalizeDirectives (module_store :: (unit, unit) store)
        \<lparr>directives = Some [(''DefaultSrc'', RawString (quoted ''self''))],
         reportOnly = False\<rparr> = Inl NeedsDefaultSrc
   \<and> (''DefaultSrc'', RawString ''x'')
       \<in> set [(''defaultSrc'', Iterable [StringValue (quoted ''self'') :: (unit, unit) directive_value]),
               (''DefaultSrc'', RawString ''x'')]
   \<and> normalizeDirectives (module_store :: (unit, unit) store)
        \<lparr>directives = Some [(''defaultSrc'', Iterable [StringValue (quoted ''self'')]),
                            (''DefaultSrc'', RawString ''x'')],
         reportOnly = False\<rparr>
      = Inr [\<lparr>directiveName = ''default-src'', directiveValue = [StringValue (quoted ''self'')]\<rparr>,
             \<lparr>directiveName = ''-default-src'', directiveValue = [StringValue ''x'']\<rparr>]
   \<and> list_all (\<lambda>d. \<not> isDirectiveValueInvalid (accumulate () () (directiveValue d)))
        [\<lparr>directiveName = ''default-src'', directiveValue = [StringValue (quoted ''self'')]\<rparr>,
         \<lparr>directiveName = ''-default-src'', directiveValue = [StringValue ''x'']\<rparr>]
   \<and> (\<exists>vs. \<lparr>directiveName = ''-default-src'', directiveValue = vs\<rparr>
         \<in> set [\<lparr>directiveName = ''default-src'',
                   directiveValue = [StringValue (quoted ''self'') :: (unit, unit) directive_value]\<rparr>,
                 \<lparr>directiveName = ''-default-src'', directiveValue = [StringValue ''x'']\<rparr>])
   \<and> getHeaderValue () ()
        [\<lparr>directiveName = ''default-src'', directiveValue = [StringValue (quoted ''self'')]\<rparr>,
         \<lparr>directiveName = ''-default-src'', directiveValue = [StringValue ''x'']\<rparr>]
      = Inr (''default-src '' @ quoted ''self'' @ '';-default-src x'')"
proof -
  let ?d = "[(''defaultSrc'', Iterable [StringValue (quoted ''self'')]),
             (''DefaultSrc'', RawString ''x'')] :: (unit, unit) raw_directives"
  let ?nds = "[\<lparr>directiveName = ''default-src'', directiveValue = [StringValue (quoted ''self'')]\<rparr>,
               \<lparr>directiveName = ''-default-src'', directiveValue = [StringValue ''x'']\<rparr>]
              :: (unit, unit) NormalizedDirectives"
  have up: "isUpper CHR ''D''" by (simp add: isUpper_def)
  note t = leading_capital_letter[OF up, where cs = "''efaultSrc''"
      and st = "module_store :: (unit, unit) store" and ro = False
      and elements = "[StringValue (quoted ''self'')]" and s = "quoted ''self''"
      and v = "RawString ''x''" and d = ?d and nds = ?nds and req = "()" and res = "()"]
  have low: "toLowerCase CHR ''D'' = CHR ''d''" "dashify ''efaultSrc'' = ''efault-src''"
    by (simp_all add: name_eval)
  have h1: "list_all isNameChar ''efaultSrc''
      \<and> \<not> hasInvalidString [StringValue (quoted ''self'') :: (unit, unit) directive_value]"
    by (simp add: name_eval)
  have h2: "list_all isNameChar ''efaultSrc'' \<and> \<not> isDirectiveValueInvalid (quoted ''self'')"
    by (simp add: name_eval)
  have n: "normalizeDirectives (module_store :: (unit, unit) store)
             \<lparr>directives = Some ?d, reportOnly = False\<rparr> = Inr ?nds"
    by (simp add: normalizeDirectives_def rawDirectivesOf_def order_eval name_eval)
  have ok: "list_all (\<lambda>d. \<not> isDirectiveValueInvalid (accumulate () () (directiveValue d))) ?nds"
    by (simp add: accumulate_def resolve_def isDirectiveValueInvalid_def)
  have h3: "(''DefaultSrc'', RawString ''x'') \<in> set ?d
      \<and> normalizeDirectives (module_store :: (unit, unit) store)
             \<lparr>directives = Some ?d, reportOnly = False\<rparr> = Inr ?nds
      \<and> list_all (\<lambda>d. \<not> isDirectiveValueInvalid (accumulate () () (directiveValue d))) ?nds"
    using n ok by simp
  from t[THEN conjunct1] have c1: "dashify ''DefaultSrc'' = ''-default-src''"
    by (simp add: low)
  from t[THEN conjunct2, THEN conjunct1] have c2: "\<not> isDirectiveNameInvalid ''DefaultSrc''"
    using h1 by (simp add: list_ex_iff list_all_iff)
  from t[THEN conjunct2, THEN conjunct2, THEN conjunct1] c1
  have c3: "''-default-src'' \<noteq> ''default-src''" by simp
  note c4 = t[THEN conjunct2, THEN conjunct2, THEN conjunct2, THEN conjunct1, rule_format, OF h1]
  note c5 = t[THEN conjunct2, THEN conjunct2, THEN conjunct2, THEN conjunct2, THEN conjunct1,
      rule_format, OF h2]
  from t[THEN conjunct2, THEN conjunct2, THEN conjunct2, THEN conjunct2, THEN conjunct2,
      rule_format, OF h3]
  have c6: "(\<exists>vs. \<lparr>directiveName = ''-default-src'', directiveValue = vs\<rparr> \<in> set ?nds)
      \<and> getHeaderValue () () ?nds = Inr (''default-src '' @ quoted ''self'' @ '';-default-src x'')"
    by (simp add: low accumulate_def resolve_def)
  from up c1 c2 c3 h1 c4 h2 c5 h3 c6 show ?thesis by blast
qed

section \<open>Copies of the defaults\<close>

text \<open>
  The object that \<^verbatim>\<open>getDefaultDirectives\<close> returns is a new one: assigning a property of it
  changes neither \<^verbatim>\<open>DEFAULT_DIRECTIVES\<close> nor another copy. Its properties hold the arrays of
  \<^verbatim>\<open>DEFAULT_DIRECTIVES\<close> themselves.
\<close>

lemma getDefaultDirectives_fresh:
  "fst (getDefaultDirectives st) = length (copies st)
   \<and> copies (snd (getDefaultDirectives st)) = copies st @ [forIn (DEFAULT_DIRECTIVES st)]
   \<and> arrays (snd (getDefaultDirectives st)) = arrays st
   \<and> DEFAULT_DIRECTIVES (snd (getDefaultDirectives st)) = DEFAULT_DIRECTIVES st"
  by (simp add: getDefaultDirectives_def)

lemma setProperty_frame:
  "DEFAULT_DIRECTIVES (setProperty obj k a st) = DEFAULT_DIRECTIVES st
   \<and> arrays (setProperty obj k a st) = arrays st
   \<and> (obj' \<noteq> obj \<longrightarrow> getProperty (setProperty obj k a st) obj' k' = getProperty st obj' k')"
  by (simp add: setProperty_def getProperty_def)

text \<open>
  C5 fails on the code for the value lists. A caller takes a copy of the defaults and
  pushes \<^verbatim>\<open>'unsafe-inline'\<close> onto the array it finds under \<^verbatim>\<open>default-src\<close>
  (\<^verbatim>\<open>getDefaultDirectives()["default-src"].push("'unsafe-inline'")\<close>). The array is the one
  that \<^verbatim>\<open>DEFAULT_DIRECTIVES\<close> refers to, at address 0: afterwards the table of defaults, the
  contents of every later copy, and the policy that \<^verbatim>\<open>normalizeDirectives\<close> builds when the
  options have no directives all have \<^verbatim>\<open>default-src 'self' 'unsafe-inline'\<close>.
\<close>

theorem shared_default_arrays:
  "fst (getDefaultDirectives (module_store :: (unit, unit) store)) = 0
   \<and> getProperty (snd (getDefaultDirectives (module_store :: (unit, unit) store))) 0 ''default-src''
       = Some 0
   \<and> map_of (contents (module_store :: (unit, unit) store) (DEFAULT_DIRECTIVES module_store))
        ''default-src''
       = Some (Iterable [StringValue (quoted ''self'')])
   \<and> map_of (contents
         (arrayPush 0 (StringValue (quoted ''unsafe-inline''))
            (snd (getDefaultDirectives (module_store :: (unit, unit) store))))
         (DEFAULT_DIRECTIVES
            (arrayPush 0 (StringValue (quoted ''unsafe-inline''))
               (snd (getDefaultDirectives (module_store :: (unit, unit) store))))))
        ''default-src''
       = Some (Iterable [StringValue (quoted ''self''), StringValue (quoted ''unsafe-inline'')])
   \<and> map_of (rawDirectivesOf
         (arrayPush 0 (StringValue (quoted ''unsafe-inline''))
            (snd (getDefaultDirectives (module_store :: (unit, unit) store))))
         \<lparr>directives = None, reportOnly = False\<rparr>)
        ''default-src''
       = Some (Iterable [StringValue (quoted ''self''), StringValue (quoted ''unsafe-inline'')])
   \<and> normalizeDirectives
         (arrayPush 0 (StringValue (quoted ''unsafe-inline''))
            (snd (getDefaultDirectives (module_store :: (unit, unit) store))))
         \<lparr>directives = None, reportOnly = False\<rparr>
       = Inr [\<lparr>directiveName = ''default-src'', directiveValue =
                [StringValue (quoted ''self''), StringValue (quoted ''unsafe-inline'')]\<rparr>,
              \<lparr>directiveName = ''base-uri'', directiveValue = [StringValue (quoted ''self'')]\<rparr>,
              \<lparr>directiveName = ''block-all-mixed-content'', directiveValue = []\<rparr>,
              \<lparr>directiveName = ''font-src'', directiveValue =
                [StringValue (quoted ''self''), StringValue ''https:'', StringValue ''data:'']\<rparr>,
              \<lparr>directiveName = ''frame-ancestors'', directiveValue = [StringValue (quoted ''self'')]\<rparr>,
              \<lparr>directiveName = ''img-src'', directiveValue =
                [StringValue (quoted ''self''), StringValue ''data:'']\<rparr>,
              \<lparr>directiveName = ''object-src'', directiveValue = [StringValue (quoted ''none'')]\<rparr>,
              \<lparr>directiveName = ''script-src'', directiveValue = [StringValue (quoted ''self'')]\<rparr>,
              \<lparr>directiveName = ''script-src-attr'', directiveValue = [StringValue (quoted ''none'')]\<rparr>,
              \<lparr>directiveName = ''style-src'', directiveValue =
                [StringValue (quoted ''self''), StringValue ''https:'',
                 StringValue (quoted ''unsafe-inline'')]\<rparr>,
              \<lparr>directiveName = ''upgrade-insecure-requests'', directiveValue = []\<rparr>]"
proof -
  let ?st2 = "arrayPush 0 (StringValue (quoted ''unsafe-inline''))
            (snd (getDefaultDirectives (module_store :: (unit, unit) store)))"
  have raw: "rawDirectivesOf ?st2 \<lparr>directives = None, reportOnly = False\<rparr> =
     [(''default-src'', Iterable [StringValue (quoted ''self''), StringValue (quoted ''unsafe-inline'')]),
      (''base-uri'', Iterable [StringValue (quoted ''self'')]),
      (''block-all-mixed-content'', Iterable []),
      (''font-src'', Iterable [StringValue (quoted ''self''), StringValue ''https:'', StringValue ''data:'']),
      (''frame-ancestors'', Iterable [StringValue (quoted ''self'')]),
      (''img-src'', Iterable [StringValue (quoted ''self''), StringValue ''data:'']),
      (''object-src'', Iterable [StringValue (quoted ''none'')]),
      (''script-src'', Iterable [StringValue (quoted ''self'')]),
      (''script-src-attr'', Iterable [StringValue (quoted ''none'')]),
      (''style-src'', Iterable [StringValue (quoted ''self''), StringValue ''https:'',
                                StringValue (quoted ''unsafe-inline'')]),
      (''upgrade-insecure-requests'', Iterable [])]"
    by (simp add: rawDirectivesOf_def getDefaultDirectives_def contents_def module_store_def
          arrayPush_def order_eval nth_append)
  have 1: "fst (getDefaultDirectives (module_store :: (unit, unit) store)) = 0"
    by (simp add: getDefaultDirectives_def module_store_def)
  have 2: "getProperty (snd (getDefaultDirectives (module_store :: (unit, unit) store))) 0 ''default-src''
       = Some 0"
    by (simp add: getProperty_def getDefaultDirectives_def module_store_def order_eval)
  have 3: "map_of (contents (module_store :: (unit, unit) store) (DEFAULT_DIRECTIVES module_store))
        ''default-src'' = Some (Iterable [StringValue (quoted ''self'')])"
    by (simp add: contents_def module_store_def)
  have 4: "map_of (contents ?st2 (DEFAULT_DIRECTIVES ?st2)) ''default-src''
       = Some (Iterable [StringValue (quoted ''self''), StringValue (quoted ''unsafe-inline'')])"
    by (simp add: contents_def module_store_def arrayPush_def getDefaultDirectives_def)
  have 5: "map_of (rawDirectivesOf ?st2 \<lparr>directives = None, reportOnly = False\<rparr>) ''default-src''
       = Some (Iterable [StringValue (quoted ''self''), StringValue (quoted ''unsafe-inline'')])"
    unfolding raw by simp
  have 6: "normalizeDirectives ?st2 \<lparr>directives = None, reportOnly = False\<rparr>
       = Inr [\<lparr>directiveName = ''default-src'', directiveValue =
                [StringValue (quoted ''self''), StringValue (quoted ''unsafe-inline'')]\<rparr>,
              \<lparr>directiveName = ''base-uri'', directiveValue = [StringValue (quoted ''self'')]\<rparr>,
              \<lparr>directiveName = ''block-all-mixed-content'', directiveValue = []\<rparr>,
              \<lparr>directiveName = ''font-src'', directiveValue =
                [StringValue (quoted ''self''), StringValue ''https:'', StringValue ''data:'']\<rparr>,
              \<lparr>directiveName = ''frame-ancestors'', directiveValue = [StringValue (quoted ''self'')]\<rparr>,
              \<lparr>directiveName = ''img-src'', directiveValue =
                [StringValue (quoted ''self''), StringValue ''data:'']\<rparr>,
              \<lparr>directiveName = ''object-src'', directiveValue = [StringValue (quoted ''none'')]\<rparr>,
              \<lparr>directiveName = ''script-src'', directiveValue = [StringValue (quoted ''self'')]\<rparr>,
              \<lparr>directiveName = ''script-src-attr'', directiveValue = [StringValue (quoted ''none'')]\<rparr>,
              \<lparr>directiveName = ''style-src'', directiveValue =
                [StringValue (quoted ''self''), StringValue ''https:'',
                 StringValue (quoted ''unsafe-inline'')]\<rparr>,
              \<lparr>directiveName = ''upgrade-insecure-requests'', directiveValue = []\<rparr>]"
    unfolding normalizeDirectives_def raw by (simp add: order_eval name_eval)
  from 1 2 3 4 5 6 show ?thesis by (intro conjI)
qed

text \<open>
  C4 fails on the code, by the sharing shown for C5. The claim holds in the store of the
  loaded module (\<open>default_configuration_loaded_module\<close>). It does not hold for every call:
  after a caller has taken a copy of the defaults and pushed \<^verbatim>\<open>a;b\<close> onto the array under
  \<^verbatim>\<open>default-src\<close>, normalization with no \<^verbatim>\<open>directives\<close> fails with "invalid directive value
  for default-src"; after a push of \<^verbatim>\<open>https:\<close> it succeeds with the value list
  \<^verbatim>\<open>["'self'", "https:"]\<close> for \<^verbatim>\<open>default-src\<close>.
\<close>

theorem default_configuration_after_push:
  "getProperty (snd (getDefaultDirectives (module_store :: (unit, unit) store))) 0 ''default-src''
     = Some 0
   \<and> normalizeDirectives
        (arrayPush 0 (StringValue ''a;b'')
           (snd (getDefaultDirectives (module_store :: (unit, unit) store))))
        \<lparr>directives = None, reportOnly = False\<rparr>
     = Inl (InvalidDirectiveValue ''default-src'')
   \<and> normalizeDirectives
        (arrayPush 0 (StringValue ''https:'')
           (snd (getDefaultDirectives (module_store :: (unit, unit) store))))
        \<lparr>directives = None, reportOnly = False\<rparr>
     = Inr [\<lparr>directiveName = ''default-src'', directiveValue =
                [StringValue (quoted ''self''), StringValue ''https:'']\<rparr>,
            \<lparr>directiveName = ''base-uri'', directiveValue = [StringValue (quoted ''self'')]\<rparr>,
            \<lparr>directiveName = ''block-all-mixed-content'', directiveValue = []\<rparr>,
            \<lparr>directiveName = ''font-src'', directiveValue =
                [StringValue (quoted ''self''), StringValue ''https:'', StringValue ''data:'']\<rparr>,
            \<lparr>directiveName = ''frame-ancestors'', directiveValue = [StringValue (quoted ''self'')]\<rparr>,
            \<lparr>directiveName = ''img-src'', directiveValue =
                [StringValue (quoted ''self''), StringValue ''data:'']\<rparr>,
            \<lparr>directiveName = ''object-src'', directiveValue = [StringValue (quoted ''none'')]\<rparr>,
            \<lparr>directiveName = ''script-src'', directiveValue = [StringValue (quoted ''self'')]\<rparr>,
            \<lparr>directiveName = ''script-src-attr'', directiveValue = [StringValue (quoted ''none'')]\<rparr>,
            \<lparr>directiveName = ''style-src'', directiveValue =
                [StringValue (quoted ''self''), StringValue ''https:'',
                 StringValue (quoted ''unsafe-inline'')]\<rparr>,
            \<lparr>directiveName = ''upgrade-insecure-requests'', directiveValue = []\<rparr>]"
proof -
  have raw: "rawDirectivesOf
        (arrayPush 0 v (snd (getDefaultDirectives (module_store :: (unit, unit) store))))
        \<lparr>directives = None, reportOnly = False\<rparr> =
     [(''default-src'', Iterable [StringValue (quoted ''self''), v]),
      (''base-uri'', Iterable [StringValue (quoted ''self'')]),
      (''block-all-mixed-content'', Iterable []),
      (''font-src'', Iterable [StringValue (quoted ''self''), StringValue ''https:'', StringValue ''data:'']),
      (''frame-ancestors'', Iterable [StringValue (quoted ''self'')]),
      (''img-src'', Iterable [StringValue (quoted ''self''), StringValue ''data:'']),
      (''object-src'', Iterable [StringValue (quoted ''none'')]),
      (''script-src'', Iterable [StringValue (quoted ''self'')]),
      (''script-src-attr'', Iterable [StringValue (quoted ''none'')]),
      (''style-src'', Iterable [StringValue (quoted ''self''), StringValue ''https:'',
                                StringValue (quoted ''unsafe-inline'')]),
      (''upgrade-insecure-requests'', Iterable [])]" for v
    by (simp add: rawDirectivesOf_def getDefaultDirectives_def contents_def module_store_def
          arrayPush_def order_eval nth_append)
  have 1: "getProperty (snd (getDefaultDirectives (module_store :: (unit, unit) store))) 0
             ''default-src'' = Some 0"
    by (simp add: getProperty_def getDefaultDirectives_def module_store_def order_eval)
  have 2: "normalizeDirectives
        (arrayPush 0 (StringValue ''a;b'')
           (snd (getDefaultDirectives (module_store :: (unit, unit) store))))
        \<lparr>directives = None, reportOnly = False\<rparr>
     = Inl (InvalidDirectiveValue ''default-src'')"
    unfolding normalizeDirectives_def raw by (simp add: order_eval name_eval)
  have 3: "normalizeDirectives
        (arrayPush 0 (StringValue ''https:'')
           (snd (getDefaultDirectives (module_store :: (unit, unit) store))))
        \<lparr>directives = None, reportOnly = False\<rparr>
     = Inr [\<lparr>directiveName = ''default-src'', directiveValue =
                [StringValue (quoted ''self''), StringValue ''https:'']\<rparr>,
            \<lparr>directiveName = ''base-uri'', directiveValue = [StringValue (quoted ''self'')]\<rparr>,
            \<lparr>directiveName = ''block-all-mixed-content'', directiveValue = []\<rparr>,
            \<lparr>directiveName = ''font-src'', directiveValue =
                [StringValue (quoted ''self''), StringValue ''https:'', StringValue ''data:'']\<rparr>,
            \<lparr>directiveName = ''frame-ancestors'', directiveValue = [StringValue (quoted ''self'')]\<rparr>,
            \<lparr>directiveName = ''img-src'', directiveValue =
                [StringValue (quoted ''self''), StringValue ''data:'']\<rparr>,
            \<lparr>directiveName = ''object-src'', directiveValue = [StringValue (quoted ''none'')]\<rparr>,
            \<lparr>directiveName = ''script-src'', directiveValue = [StringValue (quoted ''self'')]\<rparr>,
            \<lparr>directiveName = ''script-src-attr'', directiveValue = [StringValue (quoted ''none'')]\<rparr>,
            \<lparr>directiveName = ''style-src'', directiveValue =
                [StringValue (quoted ''self''), StringValue ''https:'',
                 StringValue (quoted ''unsafe-inline'')]\<rparr>,
            \<lparr>directiveName = ''upgrade-insecure-requests'', directiveValue = []\<rparr>]"
    unfolding normalizeDirectives_def raw by (simp add: order_eval name_eval)
  from 1 2 3 show ?thesis by (intro conjI)
qed

end
